theory Spec2Isabelle
  imports Complex_Main "HOL-Library.Sublist"
begin

section \<open>Python values and library primitives used by \<open>chat_media_routes.py\<close>\<close>

text \<open>
  A Python \<open>str\<close> is a list of code points; the model covers the code points below 256
  (one \<open>char\<close> each). Exceptions are values: the handlers of the module tell
  \<open>ValueError\<close> (and its subclasses) from every other \<open>Exception\<close>, so these are the
  two constructors; the argument is \<open>str(e)\<close>.
\<close>

datatype exn = ValueError string | OtherException string

fun str_exn :: "exn \<Rightarrow> string" where
  "str_exn (ValueError m) = m"
| "str_exn (OtherException m) = m"

text \<open>\<open>str.lower\<close> on code points below 256: A-Z and the Latin-1 capitals (not the
  multiplication sign 215) move up by 32.\<close>

definition lower_char :: "char \<Rightarrow> char" where
  "lower_char c =
     (let n = (of_char c :: nat)
      in if (65 \<le> n \<and> n \<le> 90) \<or> (192 \<le> n \<and> n \<le> 222 \<and> n \<noteq> 215)
         then char_of (n + 32) else c)"

definition lower :: "string \<Rightarrow> string" where
  "lower s = map lower_char s"

text \<open>\<open>s.rsplit(sep, 1)\<close> for a one-character separator: two parts, split at the last
  occurrence, or the string alone when the separator does not occur.\<close>

definition rsplit1 :: "char \<Rightarrow> string \<Rightarrow> string list" where
  "rsplit1 sep s =
     (if sep \<in> set s
      then [rev (tl (dropWhile (\<lambda>c. c \<noteq> sep) (rev s))), rev (takeWhile (\<lambda>c. c \<noteq> sep) (rev s))]
      else [s])"

text \<open>List indexing raises \<open>IndexError\<close> out of range.\<close>

definition py_index :: "'a list \<Rightarrow> nat \<Rightarrow> exn + 'a" where
  "py_index xs i =
     (if i < length xs then Inr (xs ! i) else Inl (OtherException ''list index out of range''))"

text \<open>\<open>sep.join(xs)\<close>.\<close>

fun join :: "string \<Rightarrow> string list \<Rightarrow> string" where
  "join sep [] = []"
| "join sep [x] = x"
| "join sep (x # y # ys) = x @ sep @ join sep (y # ys)"

text \<open>\<open>str(n)\<close> for a natural number.\<close>

fun str_nat :: "nat \<Rightarrow> string" where
  "str_nat n =
     (if n < 10 then [''0123456789'' ! n]
      else str_nat (n div 10) @ [''0123456789'' ! (n mod 10)])"

declare str_nat.simps [simp del]

text \<open>\<open>uuid.uuid4().hex\<close>: the 32 lower-case hexadecimal digits of the 128-bit value.\<close>

fun hex_digits :: "nat \<Rightarrow> nat \<Rightarrow> string" where
  "hex_digits 0 u = []"
| "hex_digits (Suc k) u = hex_digits k (u div 16) @ [''0123456789abcdef'' ! (u mod 16)]"

definition uuid_hex :: "nat \<Rightarrow> string" where
  "uuid_hex u = hex_digits 32 u"

text \<open>\<open>posixpath.join\<close> of two components.\<close>

definition os_path_join :: "string \<Rightarrow> string \<Rightarrow> string" where
  "os_path_join a b =
     (if b \<noteq> [] \<and> hd b = CHR ''/'' then b
      else if a = [] \<or> last a = CHR ''/'' then a @ b
      else a @ ''/'' @ b)"

subsection \<open>The filesystem\<close>

text \<open>
  A decoded picture, as far as the module looks at it: colour mode and size. The bytes
  of a file are either raw uploaded bytes or the output of the picture encoder for a
  picture, a quality and the optimize flag.
\<close>

record image =
  im_mode :: string
  im_width :: nat
  im_height :: nat

datatype content = Raw string | Encoded image nat bool

datatype node = File content | Dir

type_synonym filesystem = "string \<Rightarrow> node option"

text \<open>
  Every call into the filesystem can fail for reasons the module does not control
  (permissions, a full disk, a read-only mount). The environment says so through fault
  oracles: for a write, whether the file cannot be opened (nothing changes) or the write
  fails after the file was created, leaving partial content; for a removal, an open for
  reading and a directory creation, the exception the call raises at that path, if any.
\<close>

datatype io_fault = NoFault | OpenFails exn | WriteFails exn content

text \<open>\<open>str(e)\<close> of an \<open>OSError\<close> raised for a path, as Linux words it.\<close>

definition os_error :: "string \<Rightarrow> string \<Rightarrow> exn" where
  "os_error what p = OtherException (what @ '': '' @ [CHR 0x27] @ p @ [CHR 0x27])"

definition os_path_exists :: "filesystem \<Rightarrow> string \<Rightarrow> bool" where
  "os_path_exists fs p = (fs p \<noteq> None)"

definition os_remove :: "(string \<Rightarrow> exn option) \<Rightarrow> filesystem \<Rightarrow> string \<Rightarrow> exn + filesystem" where
  "os_remove fault fs p =
     (case fs p of
        Some (File c) \<Rightarrow> (case fault p of None \<Rightarrow> Inr (fs(p := None)) | Some x \<Rightarrow> Inl x)
      | Some Dir \<Rightarrow> Inl (os_error ''[Errno 21] Is a directory'' p)
      | None \<Rightarrow> Inl (os_error ''[Errno 2] No such file or directory'' p))"

definition write_file ::
  "(string \<Rightarrow> io_fault) \<Rightarrow> filesystem \<Rightarrow> string \<Rightarrow> content \<Rightarrow> (exn + unit) \<times> filesystem" where
  "write_file fault fs p c =
     (case fs p of
        Some Dir \<Rightarrow> (Inl (os_error ''[Errno 21] Is a directory'' p), fs)
      | _ \<Rightarrow>
          (case fault p of
             NoFault \<Rightarrow> (Inr (), fs(p \<mapsto> File c))
           | OpenFails x \<Rightarrow> (Inl x, fs)
           | WriteFails x partial \<Rightarrow> (Inl x, fs(p \<mapsto> File partial))))"

definition open_rb :: "(string \<Rightarrow> exn option) \<Rightarrow> filesystem \<Rightarrow> string \<Rightarrow> exn + content" where
  "open_rb fault fs p =
     (case fs p of
        Some (File c) \<Rightarrow> (case fault p of None \<Rightarrow> Inr c | Some x \<Rightarrow> Inl x)
      | Some Dir \<Rightarrow> Inl (os_error ''[Errno 21] Is a directory'' p)
      | None \<Rightarrow> Inl (os_error ''[Errno 2] No such file or directory'' p))"

text \<open>\<open>os.makedirs(p, exist_ok=True)\<close>: the path and the prefixes that end before a
  separator become directories; a regular file among them is an error. A call that fails
  is taken to create nothing.\<close>

definition path_prefixes :: "string \<Rightarrow> string list" where
  "path_prefixes p = [take i p. i \<leftarrow> [1..<length p], p ! i = CHR ''/''] @ [p]"

definition is_file :: "filesystem \<Rightarrow> string \<Rightarrow> bool" where
  "is_file fs p = (case fs p of Some (File c) \<Rightarrow> True | _ \<Rightarrow> False)"

definition os_makedirs :: "(string \<Rightarrow> exn option) \<Rightarrow> filesystem \<Rightarrow> string \<Rightarrow> exn + filesystem" where
  "os_makedirs fault fs p =
     (if list_ex (is_file fs) (path_prefixes p)
      then Inl (os_error ''[Errno 17] File exists'' p)
      else (case fault p of
              Some x \<Rightarrow> Inl x
            | None \<Rightarrow> Inr (\<lambda>q. if q \<in> set (path_prefixes p) then Some Dir else fs q)))"

section \<open>The environment, the process state, requests and responses\<close>

record transcript =
  t_text :: string
  t_duration :: "real option"

text \<open>
  What the module reads from outside and cannot decide itself: the process environment,
  the random identifier, the configuration, the iteration order of the two extension
  sets, the faults of the filesystem, and the three external capabilities (the
  transcription service, the picture library, the PDF library). Pillow decides in
  binary floating point which of two candidate sizes is nearer the original aspect
  ratio; \<open>pil_rounds_up\<close> is that decision. A PDF is a list of pages, each with the
  outcome of its \<open>extract_text()\<close>.
\<close>

record env =
  openai_api_key :: "string option"
  uuid4 :: nat
  tempdir :: string
  upload_folder :: "string option"
  audio_order :: "string list"
  all_order :: "string list"
  io_faults :: "string \<Rightarrow> io_fault"
  remove_faults :: "string \<Rightarrow> exn option"
  open_faults :: "string \<Rightarrow> exn option"
  mkdir_faults :: "string \<Rightarrow> exn option"
  whisper :: "string \<Rightarrow> string \<Rightarrow> content \<Rightarrow> string \<Rightarrow> string \<Rightarrow> exn + transcript"
  pil_installed :: bool
  pil_open :: "content \<Rightarrow> exn + image"
  pil_rounds_up :: "image \<Rightarrow> nat \<times> nat \<Rightarrow> bool"
  pil_can_save :: "image \<Rightarrow> string \<Rightarrow> bool"
  pdf_installed :: bool
  pdf_reader :: "content \<Rightarrow> exn + (exn + string) list"

text \<open>The mutable state: the filesystem, the module-level \<open>_openai_client\<close> (the key
  it was built with) and the application log.\<close>

record world =
  fs :: filesystem
  openai_client :: "string option"
  app_log :: "string list"

record file_storage =
  filename :: string
  stream :: string

record request =
  files :: "string \<Rightarrow> file_storage option"
  form :: "string \<Rightarrow> string option"
  host_url :: string

record attachment =
  att_id :: string
  att_type :: string
  fileName :: string
  fileURL :: string
  thumbnailURL :: "string option"
  fileSize :: nat
  mimeType :: string
  extractedText :: "string option"

text \<open>The JSON bodies the routes build: \<open>{success: False, error}\<close>, the transcription
  result, the upload result and the bare \<open>{success: True}\<close>. A response is the body with
  its status code (200 where the route gives none).\<close>

datatype json_body =
    Failure string
  | Transcription string "real option" string
  | Uploaded attachment
  | Success

type_synonym response = "json_body \<times> nat"

section \<open>Configuration and helpers of the module\<close>

definition ALLOWED_AUDIO_EXTENSIONS :: "string set" where
  "ALLOWED_AUDIO_EXTENSIONS = {''m4a'', ''mp3'', ''wav'', ''webm'', ''ogg'', ''flac''}"

definition ALLOWED_IMAGE_EXTENSIONS :: "string set" where
  "ALLOWED_IMAGE_EXTENSIONS = {''jpg'', ''jpeg'', ''png'', ''gif'', ''webp'', ''heic''}"

definition ALLOWED_DOCUMENT_EXTENSIONS :: "string set" where
  "ALLOWED_DOCUMENT_EXTENSIONS = {''pdf'', ''txt'', ''md''}"

definition MAX_AUDIO_SIZE :: nat where
  "MAX_AUDIO_SIZE = 25 * 1024 * 1024"

definition MAX_FILE_SIZE :: nat where
  "MAX_FILE_SIZE = 20 * 1024 * 1024"

definition missing_key_message :: string where
  "missing_key_message =
     ''OPENAI_API_KEY non configur'' @ [CHR 0xE9] @ ''e dans les variables d'' @ [CHR 0x27] @ ''environnement''"

definition get_openai_client :: "env \<Rightarrow> world \<Rightarrow> (exn + string) \<times> world" where
  "get_openai_client e w =
     (case openai_client w of
        Some client \<Rightarrow> (Inr client, w)
      | None \<Rightarrow>
          (case openai_api_key e of
             None \<Rightarrow> (Inl (ValueError missing_key_message), w)
           | Some api_key \<Rightarrow>
               if api_key = [] then (Inl (ValueError missing_key_message), w)
               else (Inr api_key, w\<lparr>openai_client := Some api_key\<rparr>)))"

definition allowed_file :: "string \<Rightarrow> string set \<Rightarrow> bool" where
  "allowed_file fname allowed_extensions =
     (CHR ''.'' \<in> set fname \<and> lower (rsplit1 CHR ''.'' fname ! 1) \<in> allowed_extensions)"

text \<open>The extension as \<open>get_file_type\<close> (line 57) and \<open>upload_file\<close> (line 235) compute
  it: the lower-cased part after the last dot, or the empty string.\<close>

definition ext_of :: "string \<Rightarrow> string" where
  "ext_of fname = (if CHR ''.'' \<in> set fname then lower (rsplit1 CHR ''.'' fname ! 1) else [])"

definition get_file_type :: "string \<Rightarrow> string" where
  "get_file_type fname =
     (let ext = ext_of fname
      in if ext \<in> ALLOWED_AUDIO_EXTENSIONS then ''audio''
         else if ext \<in> ALLOWED_IMAGE_EXTENSIONS then ''image''
         else if ext \<in> ALLOWED_DOCUMENT_EXTENSIONS then ''document''
         else ''unknown'')"

section \<open>Route \<open>/transcribe\<close>\<close>

definition empty_name_message :: string where
  "empty_name_message = ''Nom de fichier vide''"

definition audio_format_message :: "string list \<Rightarrow> string" where
  "audio_format_message order =
     ''Format audio non support'' @ [CHR 0xE9] @ ''. Formats accept'' @ [CHR 0xE9] @ ''s: ''
       @ join '', '' order"

definition too_large_message :: "nat \<Rightarrow> string" where
  "too_large_message limit =
     ''Fichier trop volumineux. Maximum: '' @ str_nat (limit div (1024 * 1024)) @ '' MB''"

definition temp_path :: "env \<Rightarrow> string \<Rightarrow> string" where
  "temp_path e ext = os_path_join (tempdir e) (''audio_'' @ uuid_hex (uuid4 e) @ ''.'' @ ext)"

text \<open>The body of the inner \<open>try\<close> (lines 133-151): stage the upload, get the client,
  open the staged file, call the service, build the response.\<close>

definition transcribe_staged ::
  "env \<Rightarrow> world \<Rightarrow> file_storage \<Rightarrow> string \<Rightarrow> string \<Rightarrow> (exn + response) \<times> world" where
  "transcribe_staged e w audio_file language tp =
     (case write_file (io_faults e) (fs w) tp (Raw (stream audio_file)) of
        (Inl x, fs1) \<Rightarrow> (Inl x, w\<lparr>fs := fs1\<rparr>)
      | (Inr u, fs1) \<Rightarrow>
          (case get_openai_client e (w\<lparr>fs := fs1\<rparr>) of
             (Inl x, w2) \<Rightarrow> (Inl x, w2)
           | (Inr client, w2) \<Rightarrow>
               (case open_rb (open_faults e) (fs w2) tp of
                  Inl x \<Rightarrow> (Inl x, w2)
                | Inr audio \<Rightarrow>
                    (case whisper e client ''whisper-1'' audio language ''verbose_json'' of
                       Inl x \<Rightarrow> (Inl x, w2)
                     | Inr tr \<Rightarrow>
                         (Inr (Transcription (t_text tr) (t_duration tr) language, 200), w2)))))"

text \<open>The \<open>finally\<close> block (lines 153-156).\<close>

definition remove_if_exists :: "env \<Rightarrow> filesystem \<Rightarrow> string \<Rightarrow> exn + filesystem" where
  "remove_if_exists e fsys p =
     (if os_path_exists fsys p then os_remove (remove_faults e) fsys p else Inr fsys)"

text \<open>The outer \<open>try\<close> block (lines 91-156): the admission checks, then the staged part
  followed by the \<open>finally\<close> block, whose own exception replaces the outcome.\<close>

definition transcribe_try :: "env \<Rightarrow> world \<Rightarrow> request \<Rightarrow> (exn + response) \<times> world" where
  "transcribe_try e w r =
     (case files r ''audio'' of
        None \<Rightarrow> (Inr (Failure ''Aucun fichier audio fourni'', 400), w)
      | Some audio_file \<Rightarrow>
          if filename audio_file = [] then (Inr (Failure empty_name_message, 400), w)
          else if \<not> allowed_file (filename audio_file) ALLOWED_AUDIO_EXTENSIONS
          then (Inr (Failure (audio_format_message (audio_order e)), 400), w)
          else
            let file_size = length (stream audio_file) in
            if file_size > MAX_AUDIO_SIZE
            then (Inr (Failure (too_large_message MAX_AUDIO_SIZE), 400), w)
            else
              let language = (case form r ''language'' of None \<Rightarrow> ''fr'' | Some l \<Rightarrow> l) in
              (case py_index (rsplit1 CHR ''.'' (filename audio_file)) 1 of
                 Inl x \<Rightarrow> (Inl x, w)
               | Inr raw_ext \<Rightarrow>
                   let tp = temp_path e (lower raw_ext) in
                   (case transcribe_staged e w audio_file language tp of
                      (res, w1) \<Rightarrow>
                        (case remove_if_exists e (fs w1) tp of
                           Inl x \<Rightarrow> (Inl x, w1)
                         | Inr fs2 \<Rightarrow> (res, w1\<lparr>fs := fs2\<rparr>)))))"

text \<open>The two handlers (lines 158-168).\<close>

definition transcribe_audio :: "env \<Rightarrow> world \<Rightarrow> request \<Rightarrow> response \<times> world" where
  "transcribe_audio e w r =
     (case transcribe_try e w r of
        (Inr resp, w1) \<Rightarrow> (resp, w1)
      | (Inl (ValueError m), w1) \<Rightarrow> ((Failure m, 500), w1)
      | (Inl (OtherException m), w1) \<Rightarrow>
          ((Failure (''Erreur lors de la transcription: '' @ m), 500),
           w1\<lparr>app_log := app_log w1 @ [''Erreur transcription: '' @ m]\<rparr>))"

section \<open>Library functions the upload route calls\<close>

text \<open>
  \<open>werkzeug.utils.secure_filename\<close> on a POSIX host. The function is not part of the
  repository; this follows the library's algorithm: NFKD-normalise and drop what is not
  ASCII, turn the path separator into a space, join the whitespace-separated words with
  an underscore, delete every character outside \<open>A-Z a-z 0-9 _ . -\<close>, and strip dots
  and underscores from both ends. \<open>nfkd_ascii\<close> is the first step on one code point
  below 256.
\<close>

definition nfkd_ascii :: "char \<Rightarrow> string" where
  "nfkd_ascii c =
     (let n = (of_char c :: nat)
      in if n < 128 then [c]
         else if n \<in> {160, 168, 175, 180, 184} then '' ''
         else if n = 170 then ''a'' else if n = 178 then ''2'' else if n = 179 then ''3''
         else if n = 185 then ''1'' else if n = 186 then ''o''
         else if n = 188 then ''14'' else if n = 189 then ''12'' else if n = 190 then ''34''
         else if 192 \<le> n \<and> n \<le> 197 then ''A'' else if n = 199 then ''C''
         else if 200 \<le> n \<and> n \<le> 203 then ''E'' else if 204 \<le> n \<and> n \<le> 207 then ''I''
         else if n = 209 then ''N'' else if 210 \<le> n \<and> n \<le> 214 then ''O''
         else if 217 \<le> n \<and> n \<le> 220 then ''U'' else if n = 221 then ''Y''
         else if 224 \<le> n \<and> n \<le> 229 then ''a'' else if n = 231 then ''c''
         else if 232 \<le> n \<and> n \<le> 235 then ''e'' else if 236 \<le> n \<and> n \<le> 239 then ''i''
         else if n = 241 then ''n'' else if 242 \<le> n \<and> n \<le> 246 then ''o''
         else if 249 \<le> n \<and> n \<le> 252 then ''u'' else if n = 253 \<or> n = 255 then ''y''
         else [])"

text \<open>\<open>str.isspace\<close> on code points below 256.\<close>

definition is_space :: "char \<Rightarrow> bool" where
  "is_space c =
     (let n = (of_char c :: nat)
      in (9 \<le> n \<and> n \<le> 13) \<or> (28 \<le> n \<and> n \<le> 32) \<or> n = 133 \<or> n = 160)"

text \<open>\<open>s.split()\<close>: the maximal runs of characters that are not whitespace.\<close>

fun split_acc :: "string \<Rightarrow> string \<Rightarrow> string list" where
  "split_acc cur [] = (if cur = [] then [] else [cur])"
| "split_acc cur (c # cs) =
     (if is_space c then (if cur = [] then split_acc [] cs else cur # split_acc [] cs)
      else split_acc (cur @ [c]) cs)"

definition split_ws :: "string \<Rightarrow> string list" where
  "split_ws s = split_acc [] s"

definition strip_chars :: "string \<Rightarrow> string \<Rightarrow> string" where
  "strip_chars cs s = rev (dropWhile (\<lambda>c. c \<in> set cs) (rev (dropWhile (\<lambda>c. c \<in> set cs) s)))"

definition rstrip_chars :: "string \<Rightarrow> string \<Rightarrow> string" where
  "rstrip_chars cs s = rev (dropWhile (\<lambda>c. c \<in> set cs) (rev s))"

text \<open>\<open>s.strip()\<close>.\<close>

definition strip :: "string \<Rightarrow> string" where
  "strip s = rev (dropWhile is_space (rev (dropWhile is_space s)))"

definition filename_char :: "char \<Rightarrow> bool" where
  "filename_char c =
     (c \<in> set ''ABCDEFGHIJKLMNOPQRSTUVWXYZabcdefghijklmnopqrstuvwxyz0123456789_.-'')"

definition secure_filename :: "string \<Rightarrow> string" where
  "secure_filename fname =
     (let s1 = concat (map nfkd_ascii fname);
          s2 = map (\<lambda>c. if c = CHR ''/'' then CHR '' '' else c) s1;
          s3 = join ''_'' (split_ws s2);
          s4 = filter filename_char s3
      in strip_chars ''._'' s4)"

text \<open>
  Pillow's \<open>Image.convert\<close> and \<open>Image.thumbnail\<close>, as far as mode and size go (the
  library is not part of the repository). \<open>thumbnail\<close> leaves a picture that fits the box
  alone; otherwise it keeps one side of the box and rounds the other to the candidate,
  floor or ceiling, whose aspect ratio is nearer the original's, at least 1. The
  comparison is exact here; Pillow makes it in binary floating point, so where the two
  candidates are equally near, which one it takes is the environment's \<open>round_up\<close>.
\<close>

definition pil_convert :: "image \<Rightarrow> string \<Rightarrow> image" where
  "pil_convert img m = img\<lparr>im_mode := m\<rparr>"

definition dist_nat :: "nat \<Rightarrow> nat \<Rightarrow> nat" where
  "dist_nat a b = (if a \<le> b then b - a else a - b)"

definition ceil_div :: "nat \<Rightarrow> nat \<Rightarrow> nat" where
  "ceil_div a b = (a + b - 1) div b"

definition nearer :: "bool \<Rightarrow> nat \<Rightarrow> nat \<Rightarrow> nat \<Rightarrow> nat \<Rightarrow> nat" where
  "nearer round_up lo d_lo hi d_hi =
     (if d_lo < d_hi then lo else if d_hi < d_lo then hi else if round_up then hi else lo)"

definition pil_thumbnail :: "(image \<Rightarrow> nat \<times> nat \<Rightarrow> bool) \<Rightarrow> image \<Rightarrow> nat \<times> nat \<Rightarrow> exn + image" where
  "pil_thumbnail round_up img box =
     (case box of
        (x, y) \<Rightarrow>
          let w = im_width img; h = im_height img in
          if x \<ge> w \<and> y \<ge> h then Inr img
          else if h = 0 \<or> y = 0 then Inl (OtherException ''division by zero'')
          else if x * h \<ge> w * y
          then
            let lo = (y * w) div h; hi = ceil_div (y * w) h;
                n = nearer (round_up img box) lo (dist_nat (w * y) (lo * h))
                      hi (dist_nat (w * y) (hi * h))
            in Inr (img\<lparr>im_width := max n 1, im_height := y\<rparr>)
          else
            let lo = (x * h) div w; hi = ceil_div (x * h) w;
                n = (if lo = 0 then lo
                     else nearer (round_up img box) lo (dist_nat (w * lo) (x * h) * hi)
                            hi (dist_nat (w * hi) (x * h) * lo))
            in Inr (img\<lparr>im_width := x, im_height := max n 1\<rparr>))"

section \<open>Route \<open>/upload\<close>\<close>

definition mime_types :: "string \<Rightarrow> string option" where
  "mime_types =
     map_of [(''jpg'', ''image/jpeg''), (''jpeg'', ''image/jpeg''), (''png'', ''image/png''),
             (''gif'', ''image/gif''), (''webp'', ''image/webp''), (''heic'', ''image/heic''),
             (''pdf'', ''application/pdf''), (''txt'', ''text/plain''), (''md'', ''text/markdown'')]"

definition format_message :: "string list \<Rightarrow> string" where
  "format_message order =
     ''Format non support'' @ [CHR 0xE9] @ ''. Formats accept'' @ [CHR 0xE9] @ ''s: ''
       @ join '', '' order"

definition log_error :: "world \<Rightarrow> string \<Rightarrow> world" where
  "log_error w m = w\<lparr>app_log := app_log w @ [m]\<rparr>"

text \<open>\<open>Image.open(path)\<close> and \<open>img.save(path, quality, optimize)\<close>: the encoder refuses
  some pictures for some extensions (\<open>pil_can_save\<close>); otherwise the write is a file
  write like any other.\<close>

definition image_open :: "env \<Rightarrow> filesystem \<Rightarrow> string \<Rightarrow> exn + image" where
  "image_open e fsys p =
     (case open_rb (open_faults e) fsys p of Inl x \<Rightarrow> Inl x | Inr c \<Rightarrow> pil_open e c)"

definition image_save ::
  "env \<Rightarrow> filesystem \<Rightarrow> image \<Rightarrow> string \<Rightarrow> string \<Rightarrow> nat \<Rightarrow> bool \<Rightarrow> (exn + unit) \<times> filesystem" where
  "image_save e fsys img p ext quality optimize =
     (if \<not> pil_can_save e img ext then (Inl (OtherException ''cannot write image''), fsys)
      else write_file (io_faults e) fsys p (Encoded img quality optimize))"

definition create_thumbnail ::
  "env \<Rightarrow> world \<Rightarrow> string \<Rightarrow> string \<Rightarrow> string \<Rightarrow> string \<Rightarrow> string option \<times> world" where
  "create_thumbnail e w image_path upload_dir file_id ext =
     (if \<not> pil_installed e
      then (None, log_error w (''Pillow non install'' @ [CHR 0xE9] @ '', pas de miniature cr''
                                @ [CHR 0xE9, CHR 0xE9] @ ''e''))
      else
        let thumbs_folder = os_path_join upload_dir ''thumbs'' in
        (case os_makedirs (mkdir_faults e) (fs w) thumbs_folder of
           Inl x \<Rightarrow> (None, log_error w (''Erreur cr'' @ [CHR 0xE9] @ ''ation miniature: '' @ str_exn x))
         | Inr fs1 \<Rightarrow>
             let thumb_filename = file_id @ ''_thumb.'' @ ext;
                 thumb_path = os_path_join thumbs_folder thumb_filename;
                 w1 = w\<lparr>fs := fs1\<rparr>
             in
             (case image_open e fs1 image_path of
                Inl x \<Rightarrow> (None, log_error w1 (''Erreur cr'' @ [CHR 0xE9] @ ''ation miniature: '' @ str_exn x))
              | Inr img \<Rightarrow>
                  let img1 = (if im_mode img \<in> {''RGBA'', ''P''} then pil_convert img ''RGB'' else img) in
                  (case pil_thumbnail (pil_rounds_up e) img1 (200, 200) of
                     Inl x \<Rightarrow>
                       (None, log_error w1 (''Erreur cr'' @ [CHR 0xE9] @ ''ation miniature: '' @ str_exn x))
                   | Inr img2 \<Rightarrow>
                       (case image_save e fs1 img2 thumb_path ext 85 True of
                          (Inl x, fs2) \<Rightarrow>
                            (None, log_error (w\<lparr>fs := fs2\<rparr>)
                                     (''Erreur cr'' @ [CHR 0xE9] @ ''ation miniature: '' @ str_exn x))
                        | (Inr u, fs2) \<Rightarrow> (Some thumb_path, w\<lparr>fs := fs2\<rparr>))))))"

text \<open>The loop of \<open>extract_pdf_text\<close> over the pages it was given.\<close>

fun extract_pages :: "(exn + string) list \<Rightarrow> string \<Rightarrow> exn + string" where
  "extract_pages [] acc = Inr acc"
| "extract_pages (page # pages) acc =
     (case page of
        Inl x \<Rightarrow> Inl x
      | Inr t \<Rightarrow> extract_pages pages (acc @ t @ [CHR 0x0A]))"

definition extract_pdf_text :: "env \<Rightarrow> world \<Rightarrow> string \<Rightarrow> string option \<times> world" where
  "extract_pdf_text e w pdf_path =
     (if \<not> pdf_installed e
      then (None, log_error w (''PyPDF2 non install'' @ [CHR 0xE9] @ '', pas d'' @ [CHR 0x27]
                                @ ''extraction PDF''))
      else
        (case (case open_rb (open_faults e) (fs w) pdf_path of Inl x \<Rightarrow> Inl x | Inr c \<Rightarrow> pdf_reader e c) of
           Inl x \<Rightarrow> (None, log_error w (''Erreur extraction PDF: '' @ str_exn x))
         | Inr pages \<Rightarrow>
             (case extract_pages (take 10 pages) [] of
                Inl x \<Rightarrow> (None, log_error w (''Erreur extraction PDF: '' @ str_exn x))
              | Inr t \<Rightarrow> (Some (strip t), w))))"

definition new_file_id :: "env \<Rightarrow> string" where
  "new_file_id e = ''file_'' @ take 12 (uuid_hex (uuid4 e))"

definition chat_folder :: "env \<Rightarrow> string" where
  "chat_folder e =
     os_path_join (case upload_folder e of None \<Rightarrow> ''uploads'' | Some f \<Rightarrow> f) ''chat''"

text \<open>Lines 233-298: what the route does once the upload is admitted.\<close>

definition store_upload ::
  "env \<Rightarrow> world \<Rightarrow> request \<Rightarrow> file_storage \<Rightarrow> (exn + response) \<times> world" where
  "store_upload e w r uploaded_file =
     (let file_size = length (stream uploaded_file);
          original_filename = secure_filename (filename uploaded_file);
          ext = ext_of original_filename;
          file_id = new_file_id e;
          new_filename = file_id @ ''.'' @ ext;
          file_type = get_file_type original_filename;
          chat_upload_folder = chat_folder e
      in
      (case os_makedirs (mkdir_faults e) (fs w) chat_upload_folder of
         Inl x \<Rightarrow> (Inl x, w)
       | Inr fs1 \<Rightarrow>
           let file_path = os_path_join chat_upload_folder new_filename in
           (case write_file (io_faults e) fs1 file_path (Raw (stream uploaded_file)) of
              (Inl x, fs2) \<Rightarrow> (Inl x, w\<lparr>fs := fs2\<rparr>)
            | (Inr u, fs2) \<Rightarrow>
                let base_url = rstrip_chars ''/'' (host_url r);
                    file_url = base_url @ ''/uploads/chat/'' @ new_filename;
                    (thumbnail_url, w3) =
                      (if file_type = ''image''
                       then (case create_thumbnail e (w\<lparr>fs := fs2\<rparr>) file_path chat_upload_folder
                                    file_id ext of
                               (None, w') \<Rightarrow> (None, w')
                             | (Some t, w') \<Rightarrow>
                                 (if t \<noteq> []
                                  then Some (base_url @ ''/uploads/chat/thumbs/'' @ file_id
                                             @ ''_thumb.'' @ ext)
                                  else Some t, w'))
                       else (None, w\<lparr>fs := fs2\<rparr>));
                    (extracted_text, w4) =
                      (if ext = ''pdf'' then extract_pdf_text e w3 file_path else (None, w3));
                    mime_type = (case mime_types ext of
                                   None \<Rightarrow> ''application/octet-stream'' | Some m \<Rightarrow> m)
                in
                (Inr (Uploaded
                        \<lparr>att_id = file_id, att_type = file_type, fileName = original_filename,
                         fileURL = file_url, thumbnailURL = thumbnail_url, fileSize = file_size,
                         mimeType = mime_type,
                         extractedText =
                           (case extracted_text of
                              None \<Rightarrow> None
                            | Some t \<Rightarrow> if t = [] then None else Some (take 5000 t))\<rparr>,
                      200), w4))))"

text \<open>Lines 200-231: the admission checks.\<close>

definition upload_try :: "env \<Rightarrow> world \<Rightarrow> request \<Rightarrow> (exn + response) \<times> world" where
  "upload_try e w r =
     (case files r ''file'' of
        None \<Rightarrow> (Inr (Failure ''Aucun fichier fourni'', 400), w)
      | Some uploaded_file \<Rightarrow>
          if filename uploaded_file = [] then (Inr (Failure empty_name_message, 400), w)
          else
            let all_allowed = ALLOWED_IMAGE_EXTENSIONS \<union> ALLOWED_DOCUMENT_EXTENSIONS in
            if \<not> allowed_file (filename uploaded_file) all_allowed
            then (Inr (Failure (format_message (all_order e)), 400), w)
            else
              let file_size = length (stream uploaded_file) in
              if file_size > MAX_FILE_SIZE
              then (Inr (Failure (too_large_message MAX_FILE_SIZE), 400), w)
              else store_upload e w r uploaded_file)"

definition upload_file :: "env \<Rightarrow> world \<Rightarrow> request \<Rightarrow> response \<times> world" where
  "upload_file e w r =
     (case upload_try e w r of
        (Inr resp, w1) \<Rightarrow> (resp, w1)
      | (Inl x, w1) \<Rightarrow>
          ((Failure (''Erreur lors de l'' @ [CHR 0x27] @ ''upload: '' @ str_exn x), 500),
           log_error w1 (''Erreur upload: '' @ str_exn x)))"

section \<open>Route \<open>DELETE /files/<file_id>\<close>\<close>

text \<open>The \<open>for\<close> loop of \<open>delete_file\<close> over the extensions still to try; the result is
  the flag \<open>deleted\<close>, or the exception that ended the loop, with the filesystem as the
  loop left it.\<close>

fun delete_loop ::
  "(string \<Rightarrow> exn option) \<Rightarrow> filesystem \<Rightarrow> string \<Rightarrow> string \<Rightarrow> string \<Rightarrow> string list
     \<Rightarrow> (exn + bool) \<times> filesystem" where
  "delete_loop fault fsys chat_upload_folder thumbs_folder file_id [] = (Inr False, fsys)"
| "delete_loop fault fsys chat_upload_folder thumbs_folder file_id (ext # exts) =
     (let file_path = os_path_join chat_upload_folder (file_id @ ''.'' @ ext) in
      if os_path_exists fsys file_path
      then
        (case os_remove fault fsys file_path of
           Inl x \<Rightarrow> (Inl x, fsys)
         | Inr fs1 \<Rightarrow>
             let thumb_path = os_path_join thumbs_folder (file_id @ ''_thumb.'' @ ext) in
             if os_path_exists fs1 thumb_path
             then (case os_remove fault fs1 thumb_path of
                     Inl x \<Rightarrow> (Inl x, fs1)
                   | Inr fs2 \<Rightarrow> (Inr True, fs2))
             else (Inr True, fs1))
      else delete_loop fault fsys chat_upload_folder thumbs_folder file_id exts)"

definition not_found_message :: string where
  "not_found_message = ''Fichier non trouv'' @ [CHR 0xE9]"

definition delete_file :: "env \<Rightarrow> world \<Rightarrow> string \<Rightarrow> response \<times> world" where
  "delete_file e w file_id =
     (let chat_upload_folder = chat_folder e;
          thumbs_folder = os_path_join chat_upload_folder ''thumbs''
      in
      (case delete_loop (remove_faults e) (fs w) chat_upload_folder thumbs_folder file_id
              (all_order e) of
         (Inr deleted, fs1) \<Rightarrow>
           (if deleted then (Success, 200) else (Failure not_found_message, 404), w\<lparr>fs := fs1\<rparr>)
       | (Inl x, fs1) \<Rightarrow> ((Failure (str_exn x), 500), w\<lparr>fs := fs1\<rparr>)))"

section \<open>The storage naming convention\<close>

text \<open>The two paths the routes build for an identifier and an extension: the stored
  original (lines 237-248 and 373) and its thumbnail (lines 313-317 and 379).\<close>

definition artifact_path :: "env \<Rightarrow> string \<Rightarrow> string \<Rightarrow> string" where
  "artifact_path e file_id ext = os_path_join (chat_folder e) (file_id @ ''.'' @ ext)"

definition thumbnail_path :: "env \<Rightarrow> string \<Rightarrow> string \<Rightarrow> string" where
  "thumbnail_path e file_id ext =
     os_path_join (os_path_join (chat_folder e) ''thumbs'') (file_id @ ''_thumb.'' @ ext)"

section \<open>A concrete environment, state and request\<close>

text \<open>Used to run the routes on concrete inputs: an environment in which every
  capability is present and works and no filesystem call fails, an empty filesystem, and
  a request with one file.\<close>

definition example_env :: env where
  "example_env =
     \<lparr>openai_api_key = Some ''sk-test'', uuid4 = 0, tempdir = ''/tmp'', upload_folder = None,
      audio_order = [''m4a'', ''mp3'', ''wav'', ''webm'', ''ogg'', ''flac''],
      all_order = [''jpg'', ''jpeg'', ''png'', ''gif'', ''webp'', ''heic'', ''pdf'', ''txt'', ''md''],
      io_faults = (\<lambda>p. NoFault),
      remove_faults = (\<lambda>p. None), open_faults = (\<lambda>p. None), mkdir_faults = (\<lambda>p. None),
      whisper = (\<lambda>client model audio language fmt. Inr \<lparr>t_text = ''bonjour'', t_duration = Some 2\<rparr>),
      pil_installed = True,
      pil_open = (\<lambda>c. Inr \<lparr>im_mode = ''RGB'', im_width = 400, im_height = 300\<rparr>),
      pil_rounds_up = (\<lambda>img box. False),
      pil_can_save = (\<lambda>img ext. True),
      pdf_installed = True,
      pdf_reader = (\<lambda>c. Inr [Inr ''page one''])\<rparr>"

definition example_world :: world where
  "example_world = \<lparr>fs = Map.empty, openai_client = None, app_log = []\<rparr>"

definition example_request :: "string \<Rightarrow> string \<Rightarrow> string \<Rightarrow> request" where
  "example_request field fname payload =
     \<lparr>files = [field \<mapsto> \<lparr>filename = fname, stream = payload\<rparr>], form = Map.empty,
      host_url = ''http://localhost/''\<rparr>"

text \<open>A store holding a PDF and a picture of two different identifiers.\<close>

definition example_store :: world where
  "example_store =
     \<lparr>fs = [''uploads'' \<mapsto> Dir, ''uploads/chat'' \<mapsto> Dir,
            ''uploads/chat/file_abcdef123456.pdf'' \<mapsto> File (Raw ''%PDF-1.4''),
            ''uploads/chat/file_000000000000.jpg'' \<mapsto> File (Raw ''JFIF'')],
      openai_client = None, app_log = []\<rparr>"

text \<open>A store holding one uploaded picture.\<close>

definition example_picture_store :: world where
  "example_picture_store =
     \<lparr>fs = [''uploads/chat/file_000000000000.png'' \<mapsto> File (Raw ''PNG'')],
      openai_client = None, app_log = []\<rparr>"

section \<open>Properties stated about the results\<close>

text \<open>What \<open>thumbnail\<close> promises about the size: the picture keeps its size, or one
  side is the box's and the other is 1 or less than one pixel away from the exact
  proportional value.\<close>

definition keeps_aspect :: "image \<Rightarrow> nat \<times> nat \<Rightarrow> image \<Rightarrow> bool" where
  "keeps_aspect img box img2 =
     (case box of
        (x, y) \<Rightarrow>
          (im_width img2 = im_width img \<and> im_height img2 = im_height img)
          \<or> (im_height img2 = y
              \<and> (im_width img2 = 1
                  \<or> dist_nat (im_width img2 * im_height img) (im_width img * y) < im_height img))
          \<or> (im_width img2 = x
              \<and> (im_height img2 = 1
                  \<or> dist_nat (im_height img2 * im_width img) (im_height img * x) < im_width img)))"

section \<open>Facts about the primitives\<close>

lemma rsplit1_index:
  "sep \<in> set s \<Longrightarrow> py_index (rsplit1 sep s) (Suc 0) = Inr (rsplit1 sep s ! Suc 0)"
  by (simp add: py_index_def rsplit1_def)


lemma write_file_dir:
  "write_file fault fsys p c = (res, fs1) \<Longrightarrow> (fs1 p = Some Dir) = (fsys p = Some Dir)"
  by (auto simp: write_file_def split: option.splits node.splits io_fault.splits)





lemma remove_if_exists_removes:
  "fsys p \<noteq> Some Dir \<Longrightarrow> remove_faults e p = None \<Longrightarrow>
     remove_if_exists e fsys p = Inr (fsys(p := None))"
  by (auto simp: remove_if_exists_def os_path_exists_def os_remove_def
      split: option.splits node.splits)


lemma allowed_mp3: "allowed_file ''memo.mp3'' ALLOWED_AUDIO_EXTENSIONS"
  by (simp add: allowed_file_def rsplit1_def lower_def lower_char_def ALLOWED_AUDIO_EXTENSIONS_def)

lemma transcribe_try_admitted:
  assumes "files r ''audio'' = Some a"
    and "filename a \<noteq> []"
    and "allowed_file (filename a) ALLOWED_AUDIO_EXTENSIONS"
    and "length (stream a) \<le> MAX_AUDIO_SIZE"
  shows "transcribe_try e w r =
      (let tp = temp_path e (lower (rsplit1 CHR ''.'' (filename a) ! 1)) in
       case transcribe_staged e w a (case form r ''language'' of None \<Rightarrow> ''fr'' | Some l \<Rightarrow> l) tp of
         (res, w1) \<Rightarrow>
           (case remove_if_exists e (fs w1) tp of
              Inl x \<Rightarrow> (Inl x, w1)
            | Inr fs2 \<Rightarrow> (res, w1\<lparr>fs := fs2\<rparr>)))"
proof -
  have "CHR ''.'' \<in> set (filename a)"
    using assms(3) by (simp add: allowed_file_def)
  with assms show ?thesis
    by (simp add: transcribe_try_def Let_def rsplit1_index)
qed

lemma example_audio_admitted:
  "files (example_request ''audio'' ''memo.mp3'' ''abc'') ''audio''
     = Some \<lparr>filename = ''memo.mp3'', stream = ''abc''\<rparr>"
  "filename \<lparr>filename = ''memo.mp3'', stream = ''abc''\<rparr> \<noteq> []"
  "allowed_file (filename \<lparr>filename = ''memo.mp3'', stream = ''abc''\<rparr>) ALLOWED_AUDIO_EXTENSIONS"
  "length (stream \<lparr>filename = ''memo.mp3'', stream = ''abc''\<rparr>) \<le> MAX_AUDIO_SIZE"
  by (simp_all add: example_request_def allowed_mp3 MAX_AUDIO_SIZE_def)

lemma example_ext_mp3: "lower (rsplit1 CHR ''.'' ''memo.mp3'' ! Suc 0) = ''mp3''"
  by (simp add: rsplit1_def lower_def lower_char_def)


section \<open>Transcription: the staged file and the cleanup\<close>




lemma rsplit1_last_part:
  "sep \<notin> set ext \<Longrightarrow> rsplit1 sep (pre @ sep # ext) ! Suc 0 = ext"
proof -
  assume a: "sep \<notin> set ext"
  have h: "takeWhile (\<lambda>c. c \<noteq> sep) (rev ext) = rev ext"
    using a by (auto simp: takeWhile_eq_all_conv)
  have "rsplit1 sep (pre @ sep # ext) ! Suc 0 = rev (takeWhile (\<lambda>c. c \<noteq> sep) (rev ext))"
    using a by (simp add: rsplit1_def takeWhile_tail)
  also have "\<dots> = ext"
    by (simp only: h rev_rev_ident)
  finally show ?thesis .
qed

lemma sublist_join: "x \<in> set xs \<Longrightarrow> sublist x (join sep xs)"
proof (induction sep xs rule: join.induct)
  case (1 sep)
  then show ?case by simp
next
  case (2 sep y)
  then show ?case by simp
next
  case (3 sep a b ys)
  show ?case
  proof (cases "x = a")
    case True
    then show ?thesis by simp
  next
    case False
    with 3 have "sublist x (join sep (b # ys))" by simp
    then show ?thesis by (simp add: sublist_append)
  qed
qed

lemma too_large_25: "too_large_message MAX_AUDIO_SIZE = ''Fichier trop volumineux. Maximum: 25 MB''"
  by (simp add: too_large_message_def MAX_AUDIO_SIZE_def str_nat.simps)

lemma too_large_20: "too_large_message MAX_FILE_SIZE = ''Fichier trop volumineux. Maximum: 20 MB''"
  by (simp add: too_large_message_def MAX_FILE_SIZE_def str_nat.simps)

lemma transcribe_staged_status:
  "transcribe_staged e w a language tp = (Inr resp, w1) \<Longrightarrow> snd resp = 200"
  by (auto simp: transcribe_staged_def split: prod.splits sum.splits)

lemma transcribe_admitted_status:
  assumes "files r ''audio'' = Some a"
    and "filename a \<noteq> []"
    and "allowed_file (filename a) ALLOWED_AUDIO_EXTENSIONS"
    and "length (stream a) \<le> MAX_AUDIO_SIZE"
  shows "snd (fst (transcribe_audio e w r)) = 200 \<or> snd (fst (transcribe_audio e w r)) = 500"
  using transcribe_try_admitted [OF assms, of e w]
  by (auto simp: transcribe_audio_def Let_def split: prod.splits sum.splits exn.splits
      dest: transcribe_staged_status)

lemma store_upload_status:
  "store_upload e w r u = (Inr resp, w1) \<Longrightarrow> snd resp = 200"
  by (auto simp: store_upload_def Let_def split: prod.splits sum.splits if_splits)

lemma upload_admitted_status:
  assumes "files r ''file'' = Some u"
    and "filename u \<noteq> []"
    and "allowed_file (filename u) (ALLOWED_IMAGE_EXTENSIONS \<union> ALLOWED_DOCUMENT_EXTENSIONS)"
    and "length (stream u) \<le> MAX_FILE_SIZE"
  shows "snd (fst (upload_file e w r)) = 200 \<or> snd (fst (upload_file e w r)) = 500"
  using assms
  by (auto simp: upload_file_def upload_try_def Let_def split: prod.splits sum.splits
      dest: store_upload_status)

lemma allowed_wav: "allowed_file ''talk.wav'' ALLOWED_AUDIO_EXTENSIONS"
  by (simp add: allowed_file_def rsplit1_def lower_def lower_char_def ALLOWED_AUDIO_EXTENSIONS_def)

lemma allowed_pdf:
  "allowed_file ''scan.pdf'' (ALLOWED_IMAGE_EXTENSIONS \<union> ALLOWED_DOCUMENT_EXTENSIONS)"
  by (simp add: allowed_file_def rsplit1_def lower_def lower_char_def
      ALLOWED_IMAGE_EXTENSIONS_def ALLOWED_DOCUMENT_EXTENSIONS_def)


section \<open>Transcription faults and their status codes\<close>

text \<open>
  Claim C2, as the code has it. The claim says the three fault categories reach the
  caller with pairwise different status codes. Both handlers of the route answer 500:
  a missing credential, a fault reported by the service and a failing write all come
  back with the same status.
\<close>

theorem transcribe_fault_status_counterexample:
  "fst (transcribe_audio (example_env\<lparr>openai_api_key := None\<rparr>) example_world
          (example_request ''audio'' ''memo.mp3'' ''abc''))
     = (Failure missing_key_message, 500)
   \<and> fst (transcribe_audio
            (example_env\<lparr>whisper := (\<lambda>client model audio language fmt.
                                        Inl (OtherException ''Invalid file format''))\<rparr>)
            example_world (example_request ''audio'' ''memo.mp3'' ''abc''))
     = (Failure ''Erreur lors de la transcription: Invalid file format'', 500)
   \<and> fst (transcribe_audio
            (example_env\<lparr>io_faults := (\<lambda>p. OpenFails (OtherException ''No space left on device''))\<rparr>)
            example_world (example_request ''audio'' ''memo.mp3'' ''abc''))
     = (Failure ''Erreur lors de la transcription: No space left on device'', 500)"
proof (intro conjI)
  note adm = transcribe_try_admitted [OF example_audio_admitted]
  show "fst (transcribe_audio (example_env\<lparr>openai_api_key := None\<rparr>) example_world
          (example_request ''audio'' ''memo.mp3'' ''abc''))
     = (Failure missing_key_message, 500)"
    by (simp add: transcribe_audio_def adm Let_def transcribe_staged_def write_file_def
        get_openai_client_def remove_if_exists_def os_path_exists_def os_remove_def
        example_env_def example_world_def)
  show "fst (transcribe_audio
            (example_env\<lparr>whisper := (\<lambda>client model audio language fmt.
                                        Inl (OtherException ''Invalid file format''))\<rparr>)
            example_world (example_request ''audio'' ''memo.mp3'' ''abc''))
     = (Failure ''Erreur lors de la transcription: Invalid file format'', 500)"
    by (simp add: transcribe_audio_def adm Let_def transcribe_staged_def write_file_def
        get_openai_client_def remove_if_exists_def os_path_exists_def os_remove_def open_rb_def
        example_env_def example_world_def)
  show "fst (transcribe_audio
            (example_env\<lparr>io_faults := (\<lambda>p. OpenFails (OtherException ''No space left on device''))\<rparr>)
            example_world (example_request ''audio'' ''memo.mp3'' ''abc''))
     = (Failure ''Erreur lors de la transcription: No space left on device'', 500)"
    by (simp add: transcribe_audio_def adm Let_def transcribe_staged_def write_file_def
        get_openai_client_def remove_if_exists_def os_path_exists_def os_remove_def
        example_env_def example_world_def)
qed

text \<open>
  Claim C2, amended: for a request that reaches the staging step and whose cleanup does
  not raise, the three fault categories are all surfaced with status 500. The body and
  the log depend on the class of the exception, not on where it was raised. A
  \<open>ValueError\<close> - the missing or empty credential, and equally a \<open>ValueError\<close> raised
  by the service call, by the staging write or by reopening the staged file - gives its
  message verbatim and writes no log entry. Any other exception, whether the service,
  the staging write or the reopening raised it, gives the message prefixed with
  \<open>Erreur lors de la transcription: \<close> and one log entry. So a service fault and an
  internal fault of the same class are not told apart, and a service fault that is a
  \<open>ValueError\<close> is answered like a configuration fault.
\<close>

theorem transcribe_faults_all_500:
  assumes "files r ''audio'' = Some a"
    and "filename a \<noteq> []"
    and "allowed_file (filename a) ALLOWED_AUDIO_EXTENSIONS"
    and "length (stream a) \<le> MAX_AUDIO_SIZE"
    and "tp = temp_path e (lower (rsplit1 CHR ''.'' (filename a) ! 1))"
    and "language = (case form r ''language'' of None \<Rightarrow> ''fr'' | Some l \<Rightarrow> l)"
    and "fs w tp \<noteq> Some Dir"
    and "remove_faults e tp = None"
  shows
    "(io_faults e tp = NoFault \<and> openai_client w = None
        \<and> (openai_api_key e = None \<or> openai_api_key e = Some []) \<longrightarrow>
        fst (transcribe_audio e w r) = (Failure missing_key_message, 500)
        \<and> app_log (snd (transcribe_audio e w r)) = app_log w)
     \<and> ((io_faults e tp = NoFault \<and> fst (get_openai_client e w) = Inr client
          \<and> open_faults e tp = None
          \<and> whisper e client ''whisper-1'' (Raw (stream a)) language ''verbose_json'' = Inl x)
         \<or> (io_faults e tp = NoFault \<and> fst (get_openai_client e w) = Inr client
          \<and> open_faults e tp = Some x)
         \<or> io_faults e tp = OpenFails x
         \<or> io_faults e tp = WriteFails x partial \<longrightarrow>
        fst (transcribe_audio e w r)
          = (case x of
               ValueError m \<Rightarrow> Failure m
             | OtherException m \<Rightarrow> Failure (''Erreur lors de la transcription: '' @ m), 500)
        \<and> app_log (snd (transcribe_audio e w r))
          = (case x of
               ValueError m \<Rightarrow> app_log w
             | OtherException m \<Rightarrow> app_log w @ [''Erreur transcription: '' @ m]))"
proof -
  note try_eq = transcribe_try_admitted [OF assms(1-4), of e w, folded assms(5,6)]
  have handler: "fst (transcribe_audio e w r)
          = (case y of
               ValueError m \<Rightarrow> Failure m
             | OtherException m \<Rightarrow> Failure (''Erreur lors de la transcription: '' @ m), 500)
        \<and> app_log (snd (transcribe_audio e w r))
          = (case y of
               ValueError m \<Rightarrow> app_log w
             | OtherException m \<Rightarrow> app_log w @ [''Erreur transcription: '' @ m])"
    if "\<exists>w1. transcribe_try e w r = (Inl y, w1) \<and> app_log w1 = app_log w" for y
    using that by (cases y) (auto simp: transcribe_audio_def)
  have raised: "\<exists>w1. transcribe_try e w r = (Inl y, w1) \<and> app_log w1 = app_log w"
    if st: "transcribe_staged e w a language tp = (Inl y, w0)"
      and lg: "app_log w0 = app_log w" and nd: "fs w0 tp \<noteq> Some Dir" for y w0
  proof -
    have "remove_if_exists e (fs w0) tp = Inr ((fs w0)(tp := None))"
      using nd assms(8) by (rule remove_if_exists_removes)
    with try_eq st lg show ?thesis by (simp add: Let_def)
  qed
  let ?fs1 = "(fs w)(tp \<mapsto> File (Raw (stream a)))"
  have wr: "write_file (io_faults e) (fs w) tp (Raw (stream a)) = (Inr (), ?fs1)"
    if "io_faults e tp = NoFault"
    using that assms(7) by (simp add: write_file_def split: option.splits node.splits)
  show ?thesis
  proof (rule conjI; rule impI)
    assume h: "io_faults e tp = NoFault \<and> openai_client w = None
        \<and> (openai_api_key e = None \<or> openai_api_key e = Some [])"
    then have "get_openai_client e (w\<lparr>fs := ?fs1\<rparr>)
        = (Inl (ValueError missing_key_message), w\<lparr>fs := ?fs1\<rparr>)"
      by (auto simp: get_openai_client_def)
    with h have "transcribe_staged e w a language tp
        = (Inl (ValueError missing_key_message), w\<lparr>fs := ?fs1\<rparr>)"
      by (simp add: transcribe_staged_def wr)
    then have "\<exists>w1. transcribe_try e w r = (Inl (ValueError missing_key_message), w1)
        \<and> app_log w1 = app_log w"
      by (rule raised) simp_all
    from handler [OF this]
    show "fst (transcribe_audio e w r) = (Failure missing_key_message, 500)
        \<and> app_log (snd (transcribe_audio e w r)) = app_log w"
      by simp
  next
    assume h: "(io_faults e tp = NoFault \<and> fst (get_openai_client e w) = Inr client
          \<and> open_faults e tp = None
          \<and> whisper e client ''whisper-1'' (Raw (stream a)) language ''verbose_json'' = Inl x)
         \<or> (io_faults e tp = NoFault \<and> fst (get_openai_client e w) = Inr client
          \<and> open_faults e tp = Some x)
         \<or> io_faults e tp = OpenFails x
         \<or> io_faults e tp = WriteFails x partial"
    have client: "\<exists>w2. get_openai_client e (w\<lparr>fs := ?fs1\<rparr>) = (Inr client, w2)
        \<and> fs w2 = ?fs1 \<and> app_log w2 = app_log w"
      if "fst (get_openai_client e w) = Inr client"
      using that by (auto simp: get_openai_client_def split: option.splits if_splits)
    from h consider
        (service) "io_faults e tp = NoFault" "fst (get_openai_client e w) = Inr client"
          "open_faults e tp = None"
          "whisper e client ''whisper-1'' (Raw (stream a)) language ''verbose_json'' = Inl x"
      | (reopen) "io_faults e tp = NoFault" "fst (get_openai_client e w) = Inr client"
          "open_faults e tp = Some x"
      | (cannot_open) "io_faults e tp = OpenFails x"
      | (cannot_write) "io_faults e tp = WriteFails x partial"
      by (elim disjE conjE) auto
    then have "\<exists>w1. transcribe_try e w r = (Inl x, w1) \<and> app_log w1 = app_log w"
    proof cases
      case service
      from client [OF service(2)] obtain w2 where
        w2: "get_openai_client e (w\<lparr>fs := ?fs1\<rparr>) = (Inr client, w2)"
          "fs w2 = ?fs1" "app_log w2 = app_log w"
        by blast
      have "transcribe_staged e w a language tp = (Inl x, w2)"
        using service w2 by (simp add: transcribe_staged_def wr open_rb_def)
      then show ?thesis
        by (rule raised) (simp_all add: w2)
    next
      case reopen
      from client [OF reopen(2)] obtain w2 where
        w2: "get_openai_client e (w\<lparr>fs := ?fs1\<rparr>) = (Inr client, w2)"
          "fs w2 = ?fs1" "app_log w2 = app_log w"
        by blast
      have "transcribe_staged e w a language tp = (Inl x, w2)"
        using reopen w2 by (simp add: transcribe_staged_def wr open_rb_def)
      then show ?thesis
        by (rule raised) (simp_all add: w2)
    next
      case cannot_open
      then have "transcribe_staged e w a language tp = (Inl x, w\<lparr>fs := fs w\<rparr>)"
        using assms(7)
        by (simp add: transcribe_staged_def write_file_def split: option.splits node.splits)
      then show ?thesis
        by (rule raised) (simp_all add: assms(7))
    next
      case cannot_write
      then have "transcribe_staged e w a language tp
          = (Inl x, w\<lparr>fs := (fs w)(tp \<mapsto> File partial)\<rparr>)"
        using assms(7)
        by (simp add: transcribe_staged_def write_file_def split: option.splits node.splits)
      then show ?thesis
        by (rule raised) simp_all
    qed
    from handler [OF this]
    show "fst (transcribe_audio e w r)
          = (case x of
               ValueError m \<Rightarrow> Failure m
             | OtherException m \<Rightarrow> Failure (''Erreur lors de la transcription: '' @ m), 500)
        \<and> app_log (snd (transcribe_audio e w r))
          = (case x of
               ValueError m \<Rightarrow> app_log w
             | OtherException m \<Rightarrow> app_log w @ [''Erreur transcription: '' @ m])" .
  qed
qed

text \<open>The theorem at an environment whose credential is the empty string, and at one
  whose service raises a \<open>ValueError\<close>.\<close>

theorem transcribe_faults_all_500_witness:
  "files (example_request ''audio'' ''memo.mp3'' ''abc'') ''audio''
     = Some \<lparr>filename = ''memo.mp3'', stream = ''abc''\<rparr>
   \<and> filename \<lparr>filename = ''memo.mp3'', stream = ''abc''\<rparr> \<noteq> []
   \<and> allowed_file (filename \<lparr>filename = ''memo.mp3'', stream = ''abc''\<rparr>) ALLOWED_AUDIO_EXTENSIONS
   \<and> length (stream \<lparr>filename = ''memo.mp3'', stream = ''abc''\<rparr>) \<le> MAX_AUDIO_SIZE
   \<and> fs example_world (temp_path example_env ''mp3'') \<noteq> Some Dir
   \<and> remove_faults (example_env\<lparr>openai_api_key := Some []\<rparr>) (temp_path example_env ''mp3'') = None
   \<and> io_faults (example_env\<lparr>openai_api_key := Some []\<rparr>) (temp_path example_env ''mp3'') = NoFault
   \<and> openai_client example_world = None
   \<and> openai_api_key (example_env\<lparr>openai_api_key := Some []\<rparr>) = Some []
   \<and> fst (transcribe_audio (example_env\<lparr>openai_api_key := Some []\<rparr>) example_world
            (example_request ''audio'' ''memo.mp3'' ''abc''))
       = (Failure missing_key_message, 500)
   \<and> app_log (snd (transcribe_audio (example_env\<lparr>openai_api_key := Some []\<rparr>) example_world
            (example_request ''audio'' ''memo.mp3'' ''abc''))) = app_log example_world
   \<and> remove_faults
        (example_env\<lparr>whisper := (\<lambda>client model audio language fmt. Inl (ValueError ''Audio file is too short''))\<rparr>)
        (temp_path example_env ''mp3'') = None
   \<and> io_faults
        (example_env\<lparr>whisper := (\<lambda>client model audio language fmt. Inl (ValueError ''Audio file is too short''))\<rparr>)
        (temp_path example_env ''mp3'') = NoFault
   \<and> fst (get_openai_client
        (example_env\<lparr>whisper := (\<lambda>client model audio language fmt. Inl (ValueError ''Audio file is too short''))\<rparr>)
        example_world) = Inr ''sk-test''
   \<and> open_faults
        (example_env\<lparr>whisper := (\<lambda>client model audio language fmt. Inl (ValueError ''Audio file is too short''))\<rparr>)
        (temp_path example_env ''mp3'') = None
   \<and> whisper
        (example_env\<lparr>whisper := (\<lambda>client model audio language fmt. Inl (ValueError ''Audio file is too short''))\<rparr>)
        ''sk-test'' ''whisper-1'' (Raw (stream \<lparr>filename = ''memo.mp3'', stream = ''abc''\<rparr>)) ''fr'' ''verbose_json''
       = Inl (ValueError ''Audio file is too short'')
   \<and> fst (transcribe_audio
        (example_env\<lparr>whisper := (\<lambda>client model audio language fmt. Inl (ValueError ''Audio file is too short''))\<rparr>)
        example_world (example_request ''audio'' ''memo.mp3'' ''abc''))
       = (Failure ''Audio file is too short'', 500)
   \<and> app_log (snd (transcribe_audio
        (example_env\<lparr>whisper := (\<lambda>client model audio language fmt. Inl (ValueError ''Audio file is too short''))\<rparr>)
        example_world (example_request ''audio'' ''memo.mp3'' ''abc''))) = app_log example_world"
proof -
  let ?e1 = "example_env\<lparr>openai_api_key := Some []\<rparr>"
  let ?e2 = "example_env\<lparr>whisper := (\<lambda>client model audio language fmt. Inl (ValueError ''Audio file is too short''))\<rparr>"
  let ?a = "\<lparr>filename = ''memo.mp3'', stream = ''abc''\<rparr>"
  have tp1: "temp_path example_env ''mp3'' = temp_path ?e1 (lower (rsplit1 CHR ''.'' (filename ?a) ! 1))"
    by (simp add: example_ext_mp3) (simp add: temp_path_def example_env_def)
  have tp2: "temp_path example_env ''mp3'' = temp_path ?e2 (lower (rsplit1 CHR ''.'' (filename ?a) ! 1))"
    by (simp add: example_ext_mp3) (simp add: temp_path_def example_env_def)
  have lang: "''fr'' = (case form (example_request ''audio'' ''memo.mp3'' ''abc'') ''language'' of
      None \<Rightarrow> ''fr'' | Some l \<Rightarrow> l)"
    by (simp add: example_request_def)
  have nd: "fs example_world (temp_path example_env ''mp3'') \<noteq> Some Dir"
    by (simp add: example_world_def)
  have r1: "remove_faults ?e1 (temp_path example_env ''mp3'') = None"
    and r2: "remove_faults ?e2 (temp_path example_env ''mp3'') = None"
    by (simp_all add: example_env_def)
  have c1: "io_faults ?e1 (temp_path example_env ''mp3'') = NoFault"
    "openai_client example_world = None"
    "openai_api_key ?e1 = Some []"
    by (simp_all add: example_env_def example_world_def)
  have c2: "io_faults ?e2 (temp_path example_env ''mp3'') = NoFault"
    "fst (get_openai_client ?e2 example_world) = Inr ''sk-test''"
    "open_faults ?e2 (temp_path example_env ''mp3'') = None"
    "whisper ?e2 ''sk-test'' ''whisper-1'' (Raw (stream ?a)) ''fr'' ''verbose_json''
       = Inl (ValueError ''Audio file is too short'')"
    by (simp_all add: example_env_def example_world_def get_openai_client_def)
  show ?thesis
    using transcribe_faults_all_500
        [where e = ?e1 and w = example_world and client = "''sk-test''"
           and x = "ValueError ''Audio file is too short''" and partial = "Raw []",
         OF example_audio_admitted tp1 lang nd r1]
      transcribe_faults_all_500
        [where e = ?e2 and w = example_world and client = "''sk-test''"
           and x = "ValueError ''Audio file is too short''" and partial = "Raw []",
         OF example_audio_admitted tp2 lang nd r2]
      example_audio_admitted nd r1 r2 c1 c2
    by simp
qed

section \<open>Oversized payloads are rejected before anything is written\<close>

text \<open>
  Claim C3, as the code has it. The claim says that every upload whose size exceeds the
  ceiling is rejected with TooLarge. The size is measured only after the name and the
  extension have been accepted (lines 100-111 come before 113-124, and 208-220 before
  222-231): a payload of 30 MiB named \<open>notes.txt\<close> sent for transcription, or named
  \<open>clip.mp4\<close> sent for upload, is rejected with the unsupported-format message, not
  with the too-large one.
\<close>

theorem oversize_other_rejection_counterexample:
  "length (stream \<lparr>filename = ''notes.txt'', stream = replicate 31457280 CHR ''x''\<rparr>) > MAX_AUDIO_SIZE
   \<and> transcribe_audio example_env example_world
        (example_request ''audio'' ''notes.txt'' (replicate 31457280 CHR ''x''))
      = ((Failure (audio_format_message [''m4a'', ''mp3'', ''wav'', ''webm'', ''ogg'', ''flac'']), 400),
         example_world)
   \<and> audio_format_message [''m4a'', ''mp3'', ''wav'', ''webm'', ''ogg'', ''flac'']
      \<noteq> too_large_message MAX_AUDIO_SIZE
   \<and> length (stream \<lparr>filename = ''clip.mp4'', stream = replicate 31457280 CHR ''x''\<rparr>) > MAX_FILE_SIZE
   \<and> upload_file example_env example_world
        (example_request ''file'' ''clip.mp4'' (replicate 31457280 CHR ''x''))
      = ((Failure (format_message
            [''jpg'', ''jpeg'', ''png'', ''gif'', ''webp'', ''heic'', ''pdf'', ''txt'', ''md'']), 400),
         example_world)
   \<and> format_message [''jpg'', ''jpeg'', ''png'', ''gif'', ''webp'', ''heic'', ''pdf'', ''txt'', ''md'']
      \<noteq> too_large_message MAX_FILE_SIZE"
proof -
  have bad_audio: "\<not> allowed_file ''notes.txt'' ALLOWED_AUDIO_EXTENSIONS"
    by (simp add: allowed_file_def rsplit1_def lower_def lower_char_def ALLOWED_AUDIO_EXTENSIONS_def)
  have bad_upload: "\<not> allowed_file ''clip.mp4'' (ALLOWED_IMAGE_EXTENSIONS \<union> ALLOWED_DOCUMENT_EXTENSIONS)"
    by (simp add: allowed_file_def rsplit1_def lower_def lower_char_def
        ALLOWED_IMAGE_EXTENSIONS_def ALLOWED_DOCUMENT_EXTENSIONS_def)
  have a: "transcribe_audio example_env example_world
        (example_request ''audio'' ''notes.txt'' (replicate 31457280 CHR ''x''))
      = ((Failure (audio_format_message [''m4a'', ''mp3'', ''wav'', ''webm'', ''ogg'', ''flac'']), 400),
         example_world)"
    by (simp add: transcribe_audio_def transcribe_try_def example_request_def bad_audio)
      (simp add: example_env_def)
  have u: "upload_file example_env example_world
        (example_request ''file'' ''clip.mp4'' (replicate 31457280 CHR ''x''))
      = ((Failure (format_message
            [''jpg'', ''jpeg'', ''png'', ''gif'', ''webp'', ''heic'', ''pdf'', ''txt'', ''md'']), 400),
         example_world)"
    by (simp add: upload_file_def upload_try_def example_request_def bad_upload)
      (simp add: example_env_def)
  have m: "audio_format_message [''m4a'', ''mp3'', ''wav'', ''webm'', ''ogg'', ''flac'']
      \<noteq> too_large_message MAX_AUDIO_SIZE"
    by (simp add: too_large_25 audio_format_message_def)
  have n: "format_message [''jpg'', ''jpeg'', ''png'', ''gif'', ''webp'', ''heic'', ''pdf'', ''txt'', ''md'']
      \<noteq> too_large_message MAX_FILE_SIZE"
    by (simp add: too_large_20 format_message_def)
  show ?thesis
    using a u m n by (simp add: MAX_AUDIO_SIZE_def MAX_FILE_SIZE_def)
qed

text \<open>
  Claim C3, amended. The size of an upload is measured once its name and extension have
  been accepted. A payload of more than 25 MiB (26214400 bytes) sent for transcription,
  or of more than 20 MiB (20971520 bytes) sent for upload, is always rejected with
  status 400 and the state - filesystem included - is exactly as before: no staging
  file, no directory, no stored original. The rejection is the too-large one when the
  name is not empty and the extension is allowed; otherwise the earlier check has
  already rejected the upload, as an empty name or an unsupported format. A payload at
  or below the ceiling is never rejected as too large.
\<close>

theorem oversize_rejected_before_any_write:
  "(files r1 ''audio'' = Some a1 \<and> length (stream a1) > 26214400 \<longrightarrow>
      snd (fst (transcribe_audio e w r1)) = 400 \<and> snd (transcribe_audio e w r1) = w
      \<and> (filename a1 \<noteq> [] \<and> allowed_file (filename a1) ALLOWED_AUDIO_EXTENSIONS \<longrightarrow>
           fst (transcribe_audio e w r1) = (Failure ''Fichier trop volumineux. Maximum: 25 MB'', 400)))
   \<and> (files r2 ''file'' = Some u2 \<and> length (stream u2) > 20971520 \<longrightarrow>
      snd (fst (upload_file e w r2)) = 400 \<and> snd (upload_file e w r2) = w
      \<and> (filename u2 \<noteq> []
           \<and> allowed_file (filename u2) (ALLOWED_IMAGE_EXTENSIONS \<union> ALLOWED_DOCUMENT_EXTENSIONS) \<longrightarrow>
           fst (upload_file e w r2) = (Failure ''Fichier trop volumineux. Maximum: 20 MB'', 400)))
   \<and> (files r3 ''audio'' = Some a3 \<and> length (stream a3) \<le> 26214400 \<longrightarrow>
      fst (transcribe_audio e w r3) \<noteq> (Failure ''Fichier trop volumineux. Maximum: 25 MB'', 400))
   \<and> (files r4 ''file'' = Some u4 \<and> length (stream u4) \<le> 20971520 \<longrightarrow>
      fst (upload_file e w r4) \<noteq> (Failure ''Fichier trop volumineux. Maximum: 20 MB'', 400))"
proof (intro conjI impI)
  assume h: "files r1 ''audio'' = Some a1 \<and> length (stream a1) > 26214400"
  then show "snd (fst (transcribe_audio e w r1)) = 400"
    by (simp add: transcribe_audio_def transcribe_try_def MAX_AUDIO_SIZE_def)
  from h show "snd (transcribe_audio e w r1) = w"
    by (simp add: transcribe_audio_def transcribe_try_def MAX_AUDIO_SIZE_def)
  assume "filename a1 \<noteq> [] \<and> allowed_file (filename a1) ALLOWED_AUDIO_EXTENSIONS"
  with h show "fst (transcribe_audio e w r1) = (Failure ''Fichier trop volumineux. Maximum: 25 MB'', 400)"
    by (simp add: transcribe_audio_def transcribe_try_def too_large_25 [symmetric])
      (simp add: MAX_AUDIO_SIZE_def)
next
  assume h: "files r2 ''file'' = Some u2 \<and> length (stream u2) > 20971520"
  then show "snd (fst (upload_file e w r2)) = 400"
    by (simp add: upload_file_def upload_try_def MAX_FILE_SIZE_def)
  from h show "snd (upload_file e w r2) = w"
    by (simp add: upload_file_def upload_try_def MAX_FILE_SIZE_def)
  assume "filename u2 \<noteq> []
     \<and> allowed_file (filename u2) (ALLOWED_IMAGE_EXTENSIONS \<union> ALLOWED_DOCUMENT_EXTENSIONS)"
  with h show "fst (upload_file e w r2) = (Failure ''Fichier trop volumineux. Maximum: 20 MB'', 400)"
    by (simp add: upload_file_def upload_try_def too_large_20 [symmetric])
      (simp add: MAX_FILE_SIZE_def)
next
  assume h: "files r3 ''audio'' = Some a3 \<and> length (stream a3) \<le> 26214400"
  have m: "audio_format_message order \<noteq> ''Fichier trop volumineux. Maximum: 25 MB''" for order
    by (simp add: audio_format_message_def)
  have n: "empty_name_message \<noteq> ''Fichier trop volumineux. Maximum: 25 MB''"
    by (simp add: empty_name_message_def)
  show "fst (transcribe_audio e w r3) \<noteq> (Failure ''Fichier trop volumineux. Maximum: 25 MB'', 400)"
  proof (cases "filename a3 \<noteq> [] \<and> allowed_file (filename a3) ALLOWED_AUDIO_EXTENSIONS")
    case True
    with h have "snd (fst (transcribe_audio e w r3)) = 200 \<or> snd (fst (transcribe_audio e w r3)) = 500"
      using transcribe_admitted_status [of r3 a3 e w] by (simp add: MAX_AUDIO_SIZE_def)
    then show ?thesis by auto
  next
    case False
    with h m n show ?thesis
      by (auto simp: transcribe_audio_def transcribe_try_def)
  qed
next
  assume h: "files r4 ''file'' = Some u4 \<and> length (stream u4) \<le> 20971520"
  have m: "format_message order \<noteq> ''Fichier trop volumineux. Maximum: 20 MB''" for order
    by (simp add: format_message_def)
  have n: "empty_name_message \<noteq> ''Fichier trop volumineux. Maximum: 20 MB''"
    by (simp add: empty_name_message_def)
  show "fst (upload_file e w r4) \<noteq> (Failure ''Fichier trop volumineux. Maximum: 20 MB'', 400)"
  proof (cases "filename u4 \<noteq> []
      \<and> allowed_file (filename u4) (ALLOWED_IMAGE_EXTENSIONS \<union> ALLOWED_DOCUMENT_EXTENSIONS)")
    case True
    with h have "snd (fst (upload_file e w r4)) = 200 \<or> snd (fst (upload_file e w r4)) = 500"
      using upload_admitted_status [of r4 u4 e w] by (simp add: MAX_FILE_SIZE_def)
    then show ?thesis by auto
  next
    case False
    with h m n show ?thesis
      by (auto simp: upload_file_def upload_try_def)
  qed
qed

text \<open>The theorem at a 30 MiB \<open>.wav\<close>, a PDF one byte over 20 MiB, and two small files.\<close>

theorem oversize_rejected_before_any_write_witness:
  "files (example_request ''audio'' ''talk.wav'' (replicate 31457280 CHR ''x'')) ''audio''
      = Some \<lparr>filename = ''talk.wav'', stream = replicate 31457280 CHR ''x''\<rparr>
   \<and> length (stream \<lparr>filename = ''talk.wav'', stream = replicate 31457280 CHR ''x''\<rparr>) > 26214400
   \<and> filename \<lparr>filename = ''talk.wav'', stream = replicate 31457280 CHR ''x''\<rparr> \<noteq> []
   \<and> allowed_file (filename \<lparr>filename = ''talk.wav'', stream = replicate 31457280 CHR ''x''\<rparr>)
        ALLOWED_AUDIO_EXTENSIONS
   \<and> transcribe_audio example_env example_world
        (example_request ''audio'' ''talk.wav'' (replicate 31457280 CHR ''x''))
      = ((Failure ''Fichier trop volumineux. Maximum: 25 MB'', 400), example_world)
   \<and> files (example_request ''file'' ''scan.pdf'' (replicate 20971521 CHR ''x'')) ''file''
      = Some \<lparr>filename = ''scan.pdf'', stream = replicate 20971521 CHR ''x''\<rparr>
   \<and> length (stream \<lparr>filename = ''scan.pdf'', stream = replicate 20971521 CHR ''x''\<rparr>) > 20971520
   \<and> filename \<lparr>filename = ''scan.pdf'', stream = replicate 20971521 CHR ''x''\<rparr> \<noteq> []
   \<and> allowed_file (filename \<lparr>filename = ''scan.pdf'', stream = replicate 20971521 CHR ''x''\<rparr>)
        (ALLOWED_IMAGE_EXTENSIONS \<union> ALLOWED_DOCUMENT_EXTENSIONS)
   \<and> upload_file example_env example_world
        (example_request ''file'' ''scan.pdf'' (replicate 20971521 CHR ''x''))
      = ((Failure ''Fichier trop volumineux. Maximum: 20 MB'', 400), example_world)
   \<and> files (example_request ''audio'' ''memo.mp3'' ''abc'') ''audio''
      = Some \<lparr>filename = ''memo.mp3'', stream = ''abc''\<rparr>
   \<and> length (stream \<lparr>filename = ''memo.mp3'', stream = ''abc''\<rparr>) \<le> 26214400
   \<and> fst (transcribe_audio example_env example_world (example_request ''audio'' ''memo.mp3'' ''abc''))
      \<noteq> (Failure ''Fichier trop volumineux. Maximum: 25 MB'', 400)
   \<and> files (example_request ''file'' ''photo.jpg'' ''abc'') ''file''
      = Some \<lparr>filename = ''photo.jpg'', stream = ''abc''\<rparr>
   \<and> length (stream \<lparr>filename = ''photo.jpg'', stream = ''abc''\<rparr>) \<le> 20971520
   \<and> fst (upload_file example_env example_world (example_request ''file'' ''photo.jpg'' ''abc''))
      \<noteq> (Failure ''Fichier trop volumineux. Maximum: 20 MB'', 400)"
  using oversize_rejected_before_any_write
    [of "example_request ''audio'' ''talk.wav'' (replicate 31457280 CHR ''x'')"
        "\<lparr>filename = ''talk.wav'', stream = replicate 31457280 CHR ''x''\<rparr>"
        example_env example_world
        "example_request ''file'' ''scan.pdf'' (replicate 20971521 CHR ''x'')"
        "\<lparr>filename = ''scan.pdf'', stream = replicate 20971521 CHR ''x''\<rparr>"
        "example_request ''audio'' ''memo.mp3'' ''abc''"
        "\<lparr>filename = ''memo.mp3'', stream = ''abc''\<rparr>"
        "example_request ''file'' ''photo.jpg'' ''abc''"
        "\<lparr>filename = ''photo.jpg'', stream = ''abc''\<rparr>"]
  by (simp add: example_request_def allowed_wav allowed_pdf prod_eq_iff)

lemma sublist_prepend: "sublist x ys \<Longrightarrow> sublist x (ps @ ys)"
  by (simp add: sublist_append)

section \<open>Unsupported formats are rejected without touching storage\<close>

text \<open>
  Claim C4, as the code has it. The claim speaks of every file name without a dot; the
  routes test for the empty name first, so the empty name (which has no dot) is turned
  away as an empty name, with a message that lists no format.
\<close>

theorem empty_filename_counterexample:
  "CHR ''.'' \<notin> set (filename \<lparr>filename = [], stream = ''abc''\<rparr>)
   \<and> files (example_request ''file'' [] ''abc'') ''file'' = Some \<lparr>filename = [], stream = ''abc''\<rparr>
   \<and> upload_file example_env example_world (example_request ''file'' [] ''abc'')
       = ((Failure ''Nom de fichier vide'', 400), example_world)
   \<and> ''Nom de fichier vide'' \<noteq> format_message (all_order example_env)"
  by (simp add: upload_file_def upload_try_def example_request_def empty_name_message_def
      format_message_def)

text \<open>
  Claim C4, amended: for every non-empty file name that has no dot, or whose part after
  the last dot, lower-cased, is not in the route's set of extensions, the route answers
  400 with the unsupported-format message built from the route's whole set, and leaves
  the state - filesystem included - exactly as it was. Every accepted extension occurs
  in the message.
\<close>

theorem unsupported_format_rejected:
  "(files r1 ''audio'' = Some a \<and> filename a \<noteq> []
      \<and> (CHR ''.'' \<notin> set (filename a)
          \<or> (\<exists>pre ext. filename a = pre @ ''.'' @ ext \<and> CHR ''.'' \<notin> set ext
                \<and> lower ext \<notin> ALLOWED_AUDIO_EXTENSIONS)) \<longrightarrow>
      transcribe_audio e w r1 = ((Failure (audio_format_message (audio_order e)), 400), w)
      \<and> (set (audio_order e) = ALLOWED_AUDIO_EXTENSIONS \<longrightarrow>
           (\<forall>x \<in> ALLOWED_AUDIO_EXTENSIONS. sublist x (audio_format_message (audio_order e)))))
   \<and> (files r2 ''file'' = Some u \<and> filename u \<noteq> []
      \<and> (CHR ''.'' \<notin> set (filename u)
          \<or> (\<exists>pre ext. filename u = pre @ ''.'' @ ext \<and> CHR ''.'' \<notin> set ext
                \<and> lower ext \<notin> ALLOWED_IMAGE_EXTENSIONS \<union> ALLOWED_DOCUMENT_EXTENSIONS)) \<longrightarrow>
      upload_file e w r2 = ((Failure (format_message (all_order e)), 400), w)
      \<and> (set (all_order e) = ALLOWED_IMAGE_EXTENSIONS \<union> ALLOWED_DOCUMENT_EXTENSIONS \<longrightarrow>
           (\<forall>x \<in> ALLOWED_IMAGE_EXTENSIONS \<union> ALLOWED_DOCUMENT_EXTENSIONS.
              sublist x (format_message (all_order e)))))"
proof -
  have not_allowed: "\<not> allowed_file fname S"
    if "CHR ''.'' \<notin> set fname
          \<or> (\<exists>pre ext. fname = pre @ ''.'' @ ext \<and> CHR ''.'' \<notin> set ext \<and> lower ext \<notin> S)"
    for fname S
    using that by (auto simp: allowed_file_def rsplit1_last_part)
  have listed_audio: "sublist x (audio_format_message order)" if "x \<in> set order" for x order
    unfolding audio_format_message_def
    by (intro sublist_prepend) (rule sublist_join [OF that])
  have listed: "sublist x (format_message order)" if "x \<in> set order" for x order
    unfolding format_message_def
    by (intro sublist_prepend) (rule sublist_join [OF that])
  show ?thesis
  proof (intro conjI impI ballI)
    assume h: "files r1 ''audio'' = Some a \<and> filename a \<noteq> []
      \<and> (CHR ''.'' \<notin> set (filename a)
          \<or> (\<exists>pre ext. filename a = pre @ ''.'' @ ext \<and> CHR ''.'' \<notin> set ext
                \<and> lower ext \<notin> ALLOWED_AUDIO_EXTENSIONS))"
    then have "\<not> allowed_file (filename a) ALLOWED_AUDIO_EXTENSIONS"
      by (intro not_allowed) simp
    with h show "transcribe_audio e w r1 = ((Failure (audio_format_message (audio_order e)), 400), w)"
      by (simp add: transcribe_audio_def transcribe_try_def)
  next
    fix x
    assume "set (audio_order e) = ALLOWED_AUDIO_EXTENSIONS" and "x \<in> ALLOWED_AUDIO_EXTENSIONS"
    then show "sublist x (audio_format_message (audio_order e))"
      by (intro listed_audio) simp
  next
    assume h: "files r2 ''file'' = Some u \<and> filename u \<noteq> []
      \<and> (CHR ''.'' \<notin> set (filename u)
          \<or> (\<exists>pre ext. filename u = pre @ ''.'' @ ext \<and> CHR ''.'' \<notin> set ext
                \<and> lower ext \<notin> ALLOWED_IMAGE_EXTENSIONS \<union> ALLOWED_DOCUMENT_EXTENSIONS))"
    then have "\<not> allowed_file (filename u) (ALLOWED_IMAGE_EXTENSIONS \<union> ALLOWED_DOCUMENT_EXTENSIONS)"
      by (intro not_allowed) simp
    with h show "upload_file e w r2 = ((Failure (format_message (all_order e)), 400), w)"
      by (simp add: upload_file_def upload_try_def)
  next
    fix x
    assume "set (all_order e) = ALLOWED_IMAGE_EXTENSIONS \<union> ALLOWED_DOCUMENT_EXTENSIONS"
      and "x \<in> ALLOWED_IMAGE_EXTENSIONS \<union> ALLOWED_DOCUMENT_EXTENSIONS"
    then show "sublist x (format_message (all_order e))"
      by (intro listed) simp
  qed
qed

text \<open>The theorem at a text file sent for transcription and at an upload named
  \<open>README\<close>.\<close>

theorem unsupported_format_rejected_witness:
  "files (example_request ''audio'' ''notes.txt'' ''abc'') ''audio''
      = Some \<lparr>filename = ''notes.txt'', stream = ''abc''\<rparr>
   \<and> filename \<lparr>filename = ''notes.txt'', stream = ''abc''\<rparr> \<noteq> []
   \<and> filename \<lparr>filename = ''notes.txt'', stream = ''abc''\<rparr> = ''notes'' @ ''.'' @ ''txt''
   \<and> CHR ''.'' \<notin> set ''txt''
   \<and> lower ''txt'' \<notin> ALLOWED_AUDIO_EXTENSIONS
   \<and> transcribe_audio example_env example_world (example_request ''audio'' ''notes.txt'' ''abc'')
      = ((Failure (audio_format_message (audio_order example_env)), 400), example_world)
   \<and> set (audio_order example_env) = ALLOWED_AUDIO_EXTENSIONS
   \<and> sublist ''flac'' (audio_format_message (audio_order example_env))
   \<and> files (example_request ''file'' ''README'' ''abc'') ''file''
      = Some \<lparr>filename = ''README'', stream = ''abc''\<rparr>
   \<and> filename \<lparr>filename = ''README'', stream = ''abc''\<rparr> \<noteq> []
   \<and> CHR ''.'' \<notin> set (filename \<lparr>filename = ''README'', stream = ''abc''\<rparr>)
   \<and> upload_file example_env example_world (example_request ''file'' ''README'' ''abc'')
      = ((Failure (format_message (all_order example_env)), 400), example_world)
   \<and> set (all_order example_env) = ALLOWED_IMAGE_EXTENSIONS \<union> ALLOWED_DOCUMENT_EXTENSIONS
   \<and> sublist ''md'' (format_message (all_order example_env))"
proof -
  have ex: "\<exists>pre ext. filename \<lparr>filename = ''notes.txt'', stream = ''abc''\<rparr> = pre @ ''.'' @ ext
      \<and> CHR ''.'' \<notin> set ext \<and> lower ext \<notin> ALLOWED_AUDIO_EXTENSIONS"
    by (rule exI [of _ "''notes''"], rule exI [of _ "''txt''"])
      (simp add: lower_def lower_char_def ALLOWED_AUDIO_EXTENSIONS_def)
  have orders: "set (audio_order example_env) = ALLOWED_AUDIO_EXTENSIONS"
    "set (all_order example_env) = ALLOWED_IMAGE_EXTENSIONS \<union> ALLOWED_DOCUMENT_EXTENSIONS"
    by (auto simp: example_env_def ALLOWED_AUDIO_EXTENSIONS_def ALLOWED_IMAGE_EXTENSIONS_def
        ALLOWED_DOCUMENT_EXTENSIONS_def)
  have members: "''flac'' \<in> ALLOWED_AUDIO_EXTENSIONS"
    "''md'' \<in> ALLOWED_IMAGE_EXTENSIONS \<union> ALLOWED_DOCUMENT_EXTENSIONS"
    by (simp_all add: ALLOWED_AUDIO_EXTENSIONS_def ALLOWED_DOCUMENT_EXTENSIONS_def)
  show ?thesis
    using unsupported_format_rejected
      [of "example_request ''audio'' ''notes.txt'' ''abc''"
          "\<lparr>filename = ''notes.txt'', stream = ''abc''\<rparr>" example_env example_world
          "example_request ''file'' ''README'' ''abc''"
          "\<lparr>filename = ''README'', stream = ''abc''\<rparr>"]
      ex orders members
    by (simp add: example_request_def lower_def lower_char_def ALLOWED_AUDIO_EXTENSIONS_def)
qed

section \<open>Paths, the delete loop and the effect of an upload\<close>

lemma chat_folder_shape: "\<exists>pre. chat_folder e = pre @ ''chat''"
  by (auto simp: chat_folder_def os_path_join_def split: option.splits)

lemma join_after_word:
  assumes "\<not> (b \<noteq> [] \<and> hd b = CHR ''/'')" and "c \<noteq> CHR ''/''"
  shows "os_path_join (pre @ [c]) b = pre @ c # CHR ''/'' # b"
  using assms by (simp add: os_path_join_def)

lemma no_leading_slash:
  "CHR ''/'' \<notin> set file_id \<Longrightarrow> c \<noteq> CHR ''/'' \<Longrightarrow>
     \<not> (file_id @ c # rest \<noteq> [] \<and> hd (file_id @ c # rest) = CHR ''/'')"
  by (cases file_id) auto

lemma artifact_path_shape:
  assumes "CHR ''/'' \<notin> set file_id" and "chat_folder e = pre @ ''chat''"
  shows "artifact_path e file_id ext = pre @ ''chat/'' @ file_id @ ''.'' @ ext"
proof -
  have "\<not> (file_id @ ''.'' @ ext \<noteq> [] \<and> hd (file_id @ ''.'' @ ext) = CHR ''/'')"
    using no_leading_slash [OF assms(1), of "CHR ''.''" ext] by simp
  then show ?thesis
    using join_after_word [of "file_id @ ''.'' @ ext" "CHR ''t''" "pre @ ''cha''"] assms(2)
    by (simp add: artifact_path_def)
qed

lemma thumbs_folder_shape:
  assumes "chat_folder e = pre @ ''chat''"
  shows "os_path_join (chat_folder e) ''thumbs'' = pre @ ''chat/thumbs''"
  using join_after_word [of "''thumbs''" "CHR ''t''" "pre @ ''cha''"] assms by simp

lemma thumbnail_path_shape:
  assumes "CHR ''/'' \<notin> set file_id" and "chat_folder e = pre @ ''chat''"
  shows "thumbnail_path e file_id ext = pre @ ''chat/thumbs/'' @ file_id @ ''_thumb.'' @ ext"
proof -
  have "\<not> (file_id @ ''_thumb.'' @ ext \<noteq> [] \<and> hd (file_id @ ''_thumb.'' @ ext) = CHR ''/'')"
    using no_leading_slash [OF assms(1), of "CHR ''_''" "''thumb.'' @ ext"] by simp
  then show ?thesis
    using join_after_word [of "file_id @ ''_thumb.'' @ ext" "CHR ''s''" "pre @ ''chat/thumb''"]
      thumbs_folder_shape [OF assms(2)]
    by (simp add: thumbnail_path_def)
qed

lemma name_ext_inject:
  assumes "a @ CHR ''.'' # x = b @ CHR ''.'' # y" and "CHR ''.'' \<notin> set x" and "CHR ''.'' \<notin> set y"
  shows "a = b \<and> x = y"
proof -
  have "rsplit1 CHR ''.'' (a @ CHR ''.'' # x) ! Suc 0 = rsplit1 CHR ''.'' (b @ CHR ''.'' # y) ! Suc 0"
    using assms(1) by simp
  then have "x = y"
    using assms(2,3) by (simp add: rsplit1_last_part)
  with assms(1) show ?thesis by simp
qed

lemma artifact_path_inject:
  assumes "artifact_path e a x = artifact_path e b y"
    and "CHR ''/'' \<notin> set a" and "CHR ''/'' \<notin> set b"
    and "CHR ''.'' \<notin> set x" and "CHR ''.'' \<notin> set y"
  shows "a = b \<and> x = y"
proof -
  obtain pre where pre: "chat_folder e = pre @ ''chat''"
    using chat_folder_shape by blast
  from assms(1) have "a @ CHR ''.'' # x = b @ CHR ''.'' # y"
    by (simp add: artifact_path_shape [OF assms(2) pre] artifact_path_shape [OF assms(3) pre])
  then show ?thesis using assms(4,5) by (rule name_ext_inject)
qed

lemma thumbnail_path_inject:
  assumes "thumbnail_path e a x = thumbnail_path e b y"
    and "CHR ''/'' \<notin> set a" and "CHR ''/'' \<notin> set b"
    and "CHR ''.'' \<notin> set x" and "CHR ''.'' \<notin> set y"
  shows "a = b \<and> x = y"
proof -
  obtain pre where pre: "chat_folder e = pre @ ''chat''"
    using chat_folder_shape by blast
  from assms(1) have "(a @ ''_thumb'') @ CHR ''.'' # x = (b @ ''_thumb'') @ CHR ''.'' # y"
    by (simp add: thumbnail_path_shape [OF assms(2) pre] thumbnail_path_shape [OF assms(3) pre])
  then have "a @ ''_thumb'' = b @ ''_thumb'' \<and> x = y"
    using assms(4,5) by (rule name_ext_inject)
  then show ?thesis by simp
qed

lemma artifact_not_thumbnail:
  assumes "CHR ''/'' \<notin> set a" and "CHR ''/'' \<notin> set b" and "CHR ''/'' \<notin> set x"
  shows "artifact_path e a x \<noteq> thumbnail_path e b y"
proof
  obtain pre where pre: "chat_folder e = pre @ ''chat''"
    using chat_folder_shape by blast
  assume "artifact_path e a x = thumbnail_path e b y"
  then have "a @ ''.'' @ x = ''thumbs/'' @ b @ ''_thumb.'' @ y"
    by (simp add: artifact_path_shape [OF assms(1) pre] thumbnail_path_shape [OF assms(2) pre])
  then have "CHR ''/'' \<in> set (a @ ''.'' @ x)"
    by simp
  with assms(1,3) show False by simp
qed

lemma known_ext_chars:
  "x \<in> ALLOWED_IMAGE_EXTENSIONS \<union> ALLOWED_DOCUMENT_EXTENSIONS \<Longrightarrow>
     CHR ''.'' \<notin> set x \<and> CHR ''/'' \<notin> set x \<and> x \<noteq> []"
  by (auto simp: ALLOWED_IMAGE_EXTENSIONS_def ALLOWED_DOCUMENT_EXTENSIONS_def)




lemma os_remove_effect:
  "os_remove fault fsys p = Inr fs1 \<Longrightarrow> is_file fsys p \<and> fs1 = fsys(p := None)"
  by (auto simp: os_remove_def is_file_def split: option.splits node.splits)

lemma delete_loop_frame:
  assumes "delete_loop fault fsys chat thumbs file_id exts = (res, fs1)"
  shows "fs1 = fsys
         \<or> (\<exists>x \<in> set exts. \<forall>p. p \<noteq> os_path_join chat (file_id @ ''.'' @ x)
                 \<and> p \<noteq> os_path_join thumbs (file_id @ ''_thumb.'' @ x) \<longrightarrow> fs1 p = fsys p)"
    and "\<forall>p. fs1 p = fsys p \<or> (fs1 p = None \<and> is_file fsys p)"
  using assms
proof (induction exts)
  case Nil
  {
    case 1
    then show ?case by simp
  next
    case 2
    then show ?case by simp
  }
next
  case (Cons y ys)
  {
    case 1
    then show ?case
      using Cons.IH(1)
      by (auto simp: Let_def split: if_splits sum.splits dest!: os_remove_effect)
  next
    case 2
    then show ?case
      using Cons.IH(2)
      by (auto simp: Let_def is_file_def split: if_splits sum.splits dest!: os_remove_effect)
  }
qed

lemma delete_file_unfold:
  "delete_file e w file_id =
     (case delete_loop (remove_faults e) (fs w) (chat_folder e) (os_path_join (chat_folder e) ''thumbs'') file_id
             (all_order e) of
        (Inr deleted, fs1) \<Rightarrow>
          (if deleted then (Success, 200) else (Failure not_found_message, 404), w\<lparr>fs := fs1\<rparr>)
      | (Inl x, fs1) \<Rightarrow> ((Failure (str_exn x), 500), w\<lparr>fs := fs1\<rparr>))"
  by (simp add: delete_file_def Let_def)

lemma delete_file_fs:
  "\<exists>res. delete_loop (remove_faults e) (fs w) (chat_folder e) (os_path_join (chat_folder e) ''thumbs'') file_id
            (all_order e) = (res, fs (snd (delete_file e w file_id)))"
  by (auto simp: delete_file_unfold split: prod.splits sum.splits)

lemma delete_file_rest:
  "openai_client (snd (delete_file e w file_id)) = openai_client w
   \<and> app_log (snd (delete_file e w file_id)) = app_log w"
  by (auto simp: delete_file_unfold split: prod.splits sum.splits)





lemma lower_char_fixes:
  assumes "(of_char d :: nat) < 65"
  shows "lower_char c = d \<longleftrightarrow> c = d"
proof -
  let ?n = "of_char c :: nat"
  have up: "char_of (?n + 32) \<noteq> d" if "65 \<le> ?n" "?n \<le> 222"
  proof
    assume "char_of (?n + 32) = d"
    then have "(of_char (char_of (?n + 32) :: char) :: nat) = of_char d" by simp
    then have "(?n + 32) mod 256 = (of_char d :: nat)" by simp
    with that assms show False by simp
  qed
  show ?thesis
  proof (cases "(65 \<le> ?n \<and> ?n \<le> 90) \<or> (192 \<le> ?n \<and> ?n \<le> 222 \<and> ?n \<noteq> 215)")
    case True
    then have "lower_char c = char_of (?n + 32)"
      by (simp add: lower_char_def Let_def)
    moreover from True have "65 \<le> ?n" "?n \<le> 222" by auto
    ultimately have "lower_char c \<noteq> d" using up by simp
    moreover from True assms have "c \<noteq> d" by auto
    ultimately show ?thesis by simp
  next
    case False
    then show ?thesis by (auto simp: lower_char_def Let_def)
  qed
qed

lemma lower_char_slash: "lower_char c = CHR ''/'' \<longleftrightarrow> c = CHR ''/''"
  by (rule lower_char_fixes) simp

lemma lower_char_dot: "lower_char c = CHR ''.'' \<longleftrightarrow> c = CHR ''.''"
  by (rule lower_char_fixes) simp







lemma path_prefixes_prefix: "q \<in> set (path_prefixes p) \<Longrightarrow> prefix q p"
  by (auto simp: path_prefixes_def take_is_prefix)




lemma os_makedirs_dirs:
  "os_makedirs fault fsys p = Inr fs1 \<Longrightarrow> fs1 q = fsys q \<or> fs1 q = Some Dir"
  by (auto simp: os_makedirs_def split: if_splits option.splits)


lemma write_file_ok:
  "write_file fault fsys p c = (Inr u, fs1) \<Longrightarrow> fs1 = fsys(p \<mapsto> File c)"
  by (auto simp: write_file_def split: option.splits node.splits io_fault.splits)




lemma create_thumbnail_rest:
  "create_thumbnail e w image_path chat file_id ext = (t, w1) \<Longrightarrow>
     openai_client w1 = openai_client w"
  by (auto simp: create_thumbnail_def Let_def log_error_def
      split: if_splits sum.splits prod.splits)







section \<open>Deletion touches only the two paths of its identifier\<close>

text \<open>
  Claim C10. The identifier reaches \<open>delete_file\<close> as one URL segment, so it holds no
  slash. Whatever the outcome, there is one known extension such that every path other
  than the original and the thumbnail of the identifier with that extension is left as
  it was; the route only ever removes regular files and creates or changes nothing; the
  original and the thumbnail of any other identifier (for any extension free of dots and
  slashes) are untouched; and the rest of the state is unchanged.
\<close>

theorem delete_file_frame:
  assumes "CHR ''/'' \<notin> set file_id"
    and "set (all_order e) = ALLOWED_IMAGE_EXTENSIONS \<union> ALLOWED_DOCUMENT_EXTENSIONS"
  shows "(\<exists>x \<in> ALLOWED_IMAGE_EXTENSIONS \<union> ALLOWED_DOCUMENT_EXTENSIONS.
            \<forall>p. p \<noteq> artifact_path e file_id x \<and> p \<noteq> thumbnail_path e file_id x \<longrightarrow>
                  fs (snd (delete_file e w file_id)) p = fs w p)
       \<and> (\<forall>p. fs (snd (delete_file e w file_id)) p = fs w p
               \<or> (fs (snd (delete_file e w file_id)) p = None \<and> is_file (fs w) p))
       \<and> (\<forall>other ext. other \<noteq> file_id \<and> CHR ''/'' \<notin> set other
               \<and> CHR ''.'' \<notin> set ext \<and> CHR ''/'' \<notin> set ext \<longrightarrow>
             fs (snd (delete_file e w file_id)) (artifact_path e other ext)
               = fs w (artifact_path e other ext)
             \<and> fs (snd (delete_file e w file_id)) (thumbnail_path e other ext)
               = fs w (thumbnail_path e other ext))
       \<and> openai_client (snd (delete_file e w file_id)) = openai_client w
       \<and> app_log (snd (delete_file e w file_id)) = app_log w"
proof -
  let ?fs' = "fs (snd (delete_file e w file_id))"
  let ?known = "ALLOWED_IMAGE_EXTENSIONS \<union> ALLOWED_DOCUMENT_EXTENSIONS"
  obtain res where loop: "delete_loop (remove_faults e) (fs w) (chat_folder e)
      (os_path_join (chat_folder e) ''thumbs'') file_id (all_order e) = (res, ?fs')"
    using delete_file_fs by blast
  have jpg: "''jpg'' \<in> ?known"
    by (simp add: ALLOWED_IMAGE_EXTENSIONS_def)
  have one: "\<exists>x \<in> ?known. \<forall>p. p \<noteq> artifact_path e file_id x \<and> p \<noteq> thumbnail_path e file_id x
      \<longrightarrow> ?fs' p = fs w p"
    using delete_loop_frame(1) [OF loop] jpg
    unfolding assms(2) artifact_path_def [symmetric] thumbnail_path_def [symmetric]
    by metis
  have only_files: "\<forall>p. ?fs' p = fs w p \<or> (?fs' p = None \<and> is_file (fs w) p)"
    using delete_loop_frame(2) [OF loop] .
  have others: "?fs' (artifact_path e other ext) = fs w (artifact_path e other ext)
      \<and> ?fs' (thumbnail_path e other ext) = fs w (thumbnail_path e other ext)"
    if h: "other \<noteq> file_id \<and> CHR ''/'' \<notin> set other \<and> CHR ''.'' \<notin> set ext \<and> CHR ''/'' \<notin> set ext"
    for other ext
  proof -
    from one obtain x where x: "x \<in> ?known"
      and fr: "\<forall>p. p \<noteq> artifact_path e file_id x \<and> p \<noteq> thumbnail_path e file_id x
        \<longrightarrow> ?fs' p = fs w p"
      by blast
    from x have xc: "CHR ''.'' \<notin> set x" "CHR ''/'' \<notin> set x"
      using known_ext_chars by blast+
    have "artifact_path e other ext \<noteq> artifact_path e file_id x"
      using artifact_path_inject [of e other ext file_id x] h assms(1) xc by blast
    moreover have "artifact_path e other ext \<noteq> thumbnail_path e file_id x"
      using artifact_not_thumbnail [of other file_id ext e x] h assms(1) by blast
    moreover have "thumbnail_path e other ext \<noteq> artifact_path e file_id x"
      using artifact_not_thumbnail [of file_id other x e ext] h assms(1) xc by metis
    moreover have "thumbnail_path e other ext \<noteq> thumbnail_path e file_id x"
      using thumbnail_path_inject [of e other ext file_id x] h assms(1) xc by blast
    ultimately show ?thesis using fr by blast
  qed
  show ?thesis
    using one only_files others delete_file_rest by blast
qed

text \<open>The theorem at the example store: deleting the PDF leaves the picture of the other
  identifier in place.\<close>

theorem delete_file_frame_witness:
  "CHR ''/'' \<notin> set ''file_abcdef123456''
   \<and> set (all_order example_env) = ALLOWED_IMAGE_EXTENSIONS \<union> ALLOWED_DOCUMENT_EXTENSIONS
   \<and> ''file_000000000000'' \<noteq> ''file_abcdef123456''
   \<and> CHR ''/'' \<notin> set ''file_000000000000'' \<and> CHR ''.'' \<notin> set ''jpg'' \<and> CHR ''/'' \<notin> set ''jpg''
   \<and> fs (snd (delete_file example_env example_store ''file_abcdef123456''))
         (artifact_path example_env ''file_000000000000'' ''jpg'')
       = Some (File (Raw ''JFIF''))
   \<and> openai_client (snd (delete_file example_env example_store ''file_abcdef123456'')) = None"
proof -
  have order: "set (all_order example_env) = ALLOWED_IMAGE_EXTENSIONS \<union> ALLOWED_DOCUMENT_EXTENSIONS"
    by (auto simp: example_env_def ALLOWED_IMAGE_EXTENSIONS_def ALLOWED_DOCUMENT_EXTENSIONS_def)
  have slash: "CHR ''/'' \<notin> set ''file_abcdef123456''"
    by simp
  have stored: "fs example_store (artifact_path example_env ''file_000000000000'' ''jpg'')
      = Some (File (Raw ''JFIF''))"
    by (simp add: example_store_def artifact_path_def chat_folder_def os_path_join_def
        example_env_def)
  from delete_file_frame [OF slash order, of example_store]
  have "fs (snd (delete_file example_env example_store ''file_abcdef123456''))
          (artifact_path example_env ''file_000000000000'' ''jpg'')
        = fs example_store (artifact_path example_env ''file_000000000000'' ''jpg'')"
    and "openai_client (snd (delete_file example_env example_store ''file_abcdef123456''))
        = openai_client example_store"
    by auto
  with order stored show ?thesis
    by (simp add: example_store_def)
qed

section \<open>What an admitted upload returns\<close>






lemma no_dir_is_file: "fsys p \<noteq> Some Dir \<Longrightarrow> (fsys p \<noteq> None) = is_file fsys p"
  by (auto simp: is_file_def split: option.splits node.splits)




subsection \<open>The concrete environment\<close>


lemma secure_dot_jpg: "secure_filename ''.jpg'' = ''jpg''"
  by (simp add: secure_filename_def nfkd_ascii_def split_ws_def is_space_def filename_char_def
      strip_chars_def Let_def)

lemma secure_pdf: "secure_filename ''scan.pdf'' = ''scan.pdf''"
  by (simp add: secure_filename_def nfkd_ascii_def split_ws_def is_space_def filename_char_def
      strip_chars_def Let_def)


lemma ext_scan: "ext_of ''scan.pdf'' = ''pdf''"
  by (simp add: ext_of_def rsplit1_def lower_def lower_char_def)


lemma type_scan: "get_file_type ''scan.pdf'' = ''document''"
  by (simp add: get_file_type_def ext_scan ALLOWED_AUDIO_EXTENSIONS_def ALLOWED_IMAGE_EXTENSIONS_def
      ALLOWED_DOCUMENT_EXTENSIONS_def)



lemma chat_folder_default: "upload_folder e = None \<Longrightarrow> chat_folder e = ''uploads/chat''"
  by (simp add: chat_folder_def os_path_join_def)


lemma thumbnail_path_default:
  "upload_folder e = None \<Longrightarrow>
     thumbnail_path e ''file_000000000000'' ext
       = ''uploads/chat/thumbs/file_000000000000_thumb.'' @ ext"
  by (simp add: thumbnail_path_def chat_folder_default os_path_join_def)


lemma example_upload_admitted:
  "files (example_request ''file'' fname payload) ''file'' = Some \<lparr>filename = fname, stream = payload\<rparr>"
  by (simp add: example_request_def)


section \<open>The thumbnail\<close>

lemma floor_div_bounds:
  fixes a b :: nat
  assumes "0 < b"
  shows "(a div b) * b \<le> a" and "a < (a div b) * b + b"
proof -
  show "(a div b) * b \<le> a" by simp
  have "a = (a div b) * b + a mod b" by simp
  moreover have "a mod b < b" using assms by simp
  ultimately show "a < (a div b) * b + b" by linarith
qed

lemma ceil_div_bounds:
  fixes a b :: nat
  assumes "0 < b"
  shows "a \<le> ceil_div a b * b" and "ceil_div a b * b < a + b"
proof -
  have 1: "a + b - 1 < ceil_div a b * b + b"
    unfolding ceil_div_def using floor_div_bounds(2) [OF assms, of "a + b - 1"] .
  with assms show "a \<le> ceil_div a b * b" by linarith
  have "ceil_div a b * b \<le> a + b - 1"
    unfolding ceil_div_def using floor_div_bounds(1) [OF assms, of "a + b - 1"] .
  with assms show "ceil_div a b * b < a + b" by linarith
qed

lemma ceil_div_le:
  fixes a b c :: nat
  assumes "0 < b" and "a \<le> c * b"
  shows "ceil_div a b \<le> c"
proof (rule ccontr)
  assume "\<not> ceil_div a b \<le> c"
  then have "c + 1 \<le> ceil_div a b" by simp
  then have "(c + 1) * b \<le> ceil_div a b * b" by (rule mult_le_mono1)
  with ceil_div_bounds(2) [OF assms(1), of a] have "c * b + b < a + b" by simp
  with assms(2) show False by simp
qed

lemma floor_le_ceil:
  fixes a b :: nat
  assumes "0 < b"
  shows "a div b \<le> ceil_div a b"
  unfolding ceil_div_def using assms by (intro div_le_mono) simp

lemma nearer_cases: "nearer up lo d_lo hi d_hi = lo \<or> nearer up lo d_lo hi d_hi = hi"
  by (simp add: nearer_def)

lemma pil_thumbnail_mode:
  "pil_thumbnail up img box = Inr img2 \<Longrightarrow> im_mode img2 = im_mode img"
  by (auto simp: pil_thumbnail_def Let_def split: prod.splits if_splits)

lemma pil_thumbnail_fits:
  "im_width img \<le> x \<Longrightarrow> im_height img \<le> y \<Longrightarrow> pil_thumbnail up img (x, y) = Inr img"
  by (simp add: pil_thumbnail_def)

lemma dist_nat_less:
  "a \<le> b \<Longrightarrow> b < a + c \<Longrightarrow> dist_nat a b < c" "b \<le> a \<Longrightarrow> a < b + c \<Longrightarrow> dist_nat a b < c"
  by (auto simp: dist_nat_def)

lemma pil_thumbnail_sides:
  assumes "pil_thumbnail up img (x, y) = Inr img2"
    and "\<not> (x \<ge> im_width img \<and> y \<ge> im_height img)"
  shows "0 < im_height img \<and> 0 < y"
    and "x * im_height img \<ge> im_width img * y \<Longrightarrow>
           im_height img2 = y
           \<and> (im_width img2 = max ((y * im_width img) div im_height img) 1
               \<or> im_width img2 = max (ceil_div (y * im_width img) (im_height img)) 1)"
    and "\<not> x * im_height img \<ge> im_width img * y \<Longrightarrow>
           im_width img2 = x
           \<and> (im_height img2 = max ((x * im_height img) div im_width img) 1
               \<or> im_height img2 = max (ceil_div (x * im_height img) (im_width img)) 1)"
proof -
  show pos: "0 < im_height img \<and> 0 < y"
    using assms by (auto simp: pil_thumbnail_def Let_def split: if_splits)
  {
    assume wide: "x * im_height img \<ge> im_width img * y"
    let ?lo = "(y * im_width img) div im_height img"
    let ?hi = "ceil_div (y * im_width img) (im_height img)"
    let ?n = "nearer (up img (x, y)) ?lo (dist_nat (im_width img * y) (?lo * im_height img))
                ?hi (dist_nat (im_width img * y) (?hi * im_height img))"
    have "img2 = img\<lparr>im_width := max ?n 1, im_height := y\<rparr>"
      using assms pos wide by (simp add: pil_thumbnail_def Let_def)
    moreover have "?n = ?lo \<or> ?n = ?hi"
      by (rule nearer_cases)
    ultimately show "im_height img2 = y
           \<and> (im_width img2 = max ?lo 1 \<or> im_width img2 = max ?hi 1)"
      by auto
  }
  {
    assume tall: "\<not> x * im_height img \<ge> im_width img * y"
    let ?lo = "(x * im_height img) div im_width img"
    let ?hi = "ceil_div (x * im_height img) (im_width img)"
    let ?n = "if ?lo = 0 then ?lo
              else nearer (up img (x, y)) ?lo (dist_nat (im_width img * ?lo) (x * im_height img) * ?hi)
                     ?hi (dist_nat (im_width img * ?hi) (x * im_height img) * ?lo)"
    have "img2 = img\<lparr>im_width := x, im_height := max ?n 1\<rparr>"
      using assms pos tall by (simp add: pil_thumbnail_def Let_def)
    moreover have "?n = ?lo \<or> ?n = ?hi"
      using nearer_cases by simp
    ultimately show "im_width img2 = x
           \<and> (im_height img2 = max ?lo 1 \<or> im_height img2 = max ?hi 1)"
      by auto
  }
qed

lemma pil_thumbnail_box:
  assumes "pil_thumbnail up img (x, y) = Inr img2" and "0 < x" and "0 < y"
  shows "im_width img2 \<le> x \<and> im_height img2 \<le> y" and "keeps_aspect img (x, y) img2"
proof -
  let ?w = "im_width img" and ?h = "im_height img"
  have "im_width img2 \<le> x \<and> im_height img2 \<le> y \<and> keeps_aspect img (x, y) img2"
  proof (cases "x \<ge> ?w \<and> y \<ge> ?h")
    case True
    with assms(1) show ?thesis by (simp add: pil_thumbnail_def keeps_aspect_def)
  next
    case False
    note sides = pil_thumbnail_sides [OF assms(1) False]
    from sides(1) have h: "0 < ?h" by simp
    show ?thesis
    proof (cases "x * ?h \<ge> ?w * y")
      case True
      let ?lo = "(y * ?w) div ?h" and ?hi = "ceil_div (y * ?w) ?h"
      have hi: "?hi \<le> x"
        using True by (intro ceil_div_le [OF h]) (simp add: mult.commute)
      have lo: "?lo \<le> x"
        using floor_le_ceil [OF h, of "y * ?w"] hi by simp
      have dlo: "dist_nat (?lo * ?h) (?w * y) < ?h"
        using floor_div_bounds [OF h, of "y * ?w"] by (intro dist_nat_less(1)) (simp_all add: mult.commute)
      have dhi: "dist_nat (?hi * ?h) (?w * y) < ?h"
        using ceil_div_bounds [OF h, of "y * ?w"] by (intro dist_nat_less(2)) (simp_all add: mult.commute)
      from sides(2) [OF True]
      have ht: "im_height img2 = y"
        and wd: "im_width img2 = max ?lo 1 \<or> im_width img2 = max ?hi 1"
        by simp_all
      from wd dlo dhi have "im_width img2 = 1
          \<or> dist_nat (im_width img2 * ?h) (?w * y) < ?h"
        by (auto simp: max_def split: if_splits)
      with ht have "keeps_aspect img (x, y) img2"
        by (simp add: keeps_aspect_def)
      with ht wd hi lo assms(2,3) show ?thesis by auto
    next
      case False2: False
      then have w: "0 < ?w" by (cases "?w = 0") auto
      let ?lo = "(x * ?h) div ?w" and ?hi = "ceil_div (x * ?h) ?w"
      have hi: "?hi \<le> y"
        using False2 by (intro ceil_div_le [OF w]) (simp add: mult.commute)
      have lo: "?lo \<le> y"
        using floor_le_ceil [OF w, of "x * ?h"] hi by simp
      have dlo: "dist_nat (?lo * ?w) (?h * x) < ?w"
        using floor_div_bounds [OF w, of "x * ?h"] by (intro dist_nat_less(1)) (simp_all add: mult.commute)
      have dhi: "dist_nat (?hi * ?w) (?h * x) < ?w"
        using ceil_div_bounds [OF w, of "x * ?h"] by (intro dist_nat_less(2)) (simp_all add: mult.commute)
      from sides(3) [OF False2]
      have wd: "im_width img2 = x"
        and ht: "im_height img2 = max ?lo 1 \<or> im_height img2 = max ?hi 1"
        by simp_all
      from ht dlo dhi have "im_height img2 = 1
          \<or> dist_nat (im_height img2 * ?w) (?h * x) < ?w"
        by (auto simp: max_def split: if_splits)
      with wd have "keeps_aspect img (x, y) img2"
        by (simp add: keeps_aspect_def)
      with ht wd hi lo assms(2,3) show ?thesis by auto
    qed
  qed
  then show "im_width img2 \<le> x \<and> im_height img2 \<le> y" and "keeps_aspect img (x, y) img2"
    by simp_all
qed

lemma create_thumbnail_some:
  assumes "create_thumbnail e w image_path chat file_id ext = (Some t, w1)"
  obtains fs1 img img2 v where
    "pil_installed e"
    "os_makedirs (mkdir_faults e) (fs w) (os_path_join chat ''thumbs'') = Inr fs1"
    "image_open e fs1 image_path = Inr img"
    "pil_thumbnail (pil_rounds_up e)
       (if im_mode img \<in> {''RGBA'', ''P''} then pil_convert img ''RGB'' else img)
       (200, 200) = Inr img2"
    "pil_can_save e img2 ext"
    "write_file (io_faults e) fs1
       (os_path_join (os_path_join chat ''thumbs'') (file_id @ ''_thumb.'' @ ext))
       (Encoded img2 85 True) = (Inr v, fs w1)"
    "t = os_path_join (os_path_join chat ''thumbs'') (file_id @ ''_thumb.'' @ ext)"
proof -
  let ?thumbs = "os_path_join chat ''thumbs''"
  let ?T = "os_path_join ?thumbs (file_id @ ''_thumb.'' @ ext)"
  have inst: "pil_installed e"
    using assms by (rule_tac ccontr) (simp add: create_thumbnail_def)
  obtain fs1 where mk: "os_makedirs (mkdir_faults e) (fs w) ?thumbs = Inr fs1"
    using assms inst
    by (cases "os_makedirs (mkdir_faults e) (fs w) ?thumbs") (auto simp: create_thumbnail_def Let_def)
  obtain img where op: "image_open e fs1 image_path = Inr img"
    using assms inst mk
    by (cases "image_open e fs1 image_path") (auto simp: create_thumbnail_def Let_def)
  let ?img1 = "if im_mode img \<in> {''RGBA'', ''P''} then pil_convert img ''RGB'' else img"
  obtain img2 where th: "pil_thumbnail (pil_rounds_up e) ?img1 (200, 200) = Inr img2"
    using assms inst mk op
    by (cases "pil_thumbnail (pil_rounds_up e) ?img1 (200, 200)") (auto simp: create_thumbnail_def Let_def)
  have step: "create_thumbnail e w image_path chat file_id ext =
      (case image_save e fs1 img2 ?T ext 85 True of
         (Inl x, fs2) \<Rightarrow>
           (None, log_error (w\<lparr>fs := fs2\<rparr>)
                    (''Erreur cr'' @ [CHR 0xE9] @ ''ation miniature: '' @ str_exn x))
       | (Inr u, fs2) \<Rightarrow> (Some ?T, w\<lparr>fs := fs2\<rparr>))"
    using inst mk op th
    by (simp add: create_thumbnail_def Let_def split: prod.splits sum.splits)
  obtain res fs2 where sv: "image_save e fs1 img2 ?T ext 85 True = (res, fs2)"
    by (cases "image_save e fs1 img2 ?T ext 85 True") auto
  with assms step obtain v where res: "res = Inr v" and fin: "fs w1 = fs2" and t: "t = ?T"
    by (cases res) auto
  have can: "pil_can_save e img2 ext"
    using sv res by (rule_tac ccontr) (simp add: image_save_def)
  then have wr: "write_file (io_faults e) fs1 ?T (Encoded img2 85 True) = (Inr v, fs w1)"
    using sv res fin by (simp add: image_save_def)
  show thesis
    by (rule that [OF inst mk op th can wr t])
qed

lemma create_thumbnail_result:
  assumes "pil_installed e"
    and "os_makedirs (mkdir_faults e) (fs w) (os_path_join chat ''thumbs'') = Inr fs1"
    and "image_open e fs1 image_path = Inr img"
    and "pil_thumbnail (pil_rounds_up e)
           (if im_mode img \<in> {''RGBA'', ''P''} then pil_convert img ''RGB'' else img)
           (200, 200) = Inr img2"
    and "pil_can_save e img2 ext"
    and "T = os_path_join (os_path_join chat ''thumbs'') (file_id @ ''_thumb.'' @ ext)"
    and "fs1 T \<noteq> Some Dir"
    and "io_faults e T = NoFault"
  shows "create_thumbnail e w image_path chat file_id ext
           = (Some T, w\<lparr>fs := fs1(T \<mapsto> File (Encoded img2 85 True))\<rparr>)"
proof -
  have "write_file (io_faults e) fs1 T (Encoded img2 85 True)
      = (Inr (), fs1(T \<mapsto> File (Encoded img2 85 True)))"
    using assms(7,8) by (auto simp: write_file_def split: option.splits node.splits)
  with assms(1-6) show ?thesis
    by (simp add: create_thumbnail_def Let_def image_save_def)
qed


section \<open>Upload, delete, delete again\<close>





section \<open>The thumbnail policy\<close>

lemma example_quiet:
  "mkdir_faults example_env = (\<lambda>p. None)" "open_faults example_env = (\<lambda>p. None)"
  "remove_faults example_env = (\<lambda>p. None)" "io_faults example_env = (\<lambda>p. NoFault)"
  "pil_rounds_up example_env = (\<lambda>img box. False)"
  by (simp_all add: example_env_def)

lemma example_thumbnail:
  assumes "pil_thumbnail (\<lambda>img box. False)
             (if im_mode img \<in> {''RGBA'', ''P''} then pil_convert img ''RGB'' else img)
             (200, 200) = Inr img2"
  shows "create_thumbnail (example_env\<lparr>pil_open := (\<lambda>c. Inr img)\<rparr>) example_picture_store
           ''uploads/chat/file_000000000000.png'' ''uploads/chat'' ''file_000000000000'' ''png''
         = (Some ''uploads/chat/thumbs/file_000000000000_thumb.png'',
            example_picture_store
              \<lparr>fs := (\<lambda>q. if q \<in> set (path_prefixes ''uploads/chat/thumbs'') then Some Dir
                           else fs example_picture_store q)
                      (''uploads/chat/thumbs/file_000000000000_thumb.png''
                         \<mapsto> File (Encoded img2 85 True))\<rparr>)"
proof -
  let ?e = "example_env\<lparr>pil_open := (\<lambda>c. Inr img)\<rparr>"
  let ?P = "''uploads/chat/file_000000000000.png''"
  let ?T = "''uploads/chat/thumbs/file_000000000000_thumb.png''"
  let ?fs1 = "\<lambda>q. if q \<in> set (path_prefixes ''uploads/chat/thumbs'') then Some Dir
                   else fs example_picture_store q"
  have thumbs: "os_path_join ''uploads/chat'' ''thumbs'' = ''uploads/chat/thumbs''"
    by (simp add: os_path_join_def)
  have T: "?T = os_path_join (os_path_join ''uploads/chat'' ''thumbs'')
      (''file_000000000000'' @ ''_thumb.'' @ ''png'')"
    by (simp add: os_path_join_def)
  have P_pre: "?P \<notin> set (path_prefixes ''uploads/chat/thumbs'')"
    using path_prefixes_prefix [of ?P "''uploads/chat/thumbs''"] by auto
  have T_pre: "?T \<notin> set (path_prefixes ''uploads/chat/thumbs'')"
    using path_prefixes_prefix [of ?T "''uploads/chat/thumbs''"] by auto
  have only: "is_file (fs example_picture_store) q \<longleftrightarrow> q = ?P" for q
    by (simp add: is_file_def example_picture_store_def)
  have mk: "os_makedirs (mkdir_faults ?e) (fs example_picture_store)
      (os_path_join ''uploads/chat'' ''thumbs'') = Inr ?fs1"
    using P_pre by (simp add: os_makedirs_def thumbs list_ex_iff only example_quiet)
  have op: "image_open ?e ?fs1 ?P = Inr img"
    using P_pre
    by (simp add: image_open_def open_rb_def example_quiet) (simp add: example_picture_store_def)
  have th: "pil_thumbnail (pil_rounds_up ?e)
      (if im_mode img \<in> {''RGBA'', ''P''} then pil_convert img ''RGB'' else img) (200, 200) = Inr img2"
    using assms by (simp add: example_quiet)
  show ?thesis
    using create_thumbnail_result [of ?e example_picture_store "''uploads/chat''" ?fs1 ?P img img2
        "''png''" ?T "''file_000000000000''", OF _ mk op th _ T]
      T_pre
    by (simp add: example_env_def example_picture_store_def)
qed

lemma gray_thumbnail:
  "pil_thumbnail up \<lparr>im_mode = ''L'', im_width = 400, im_height = 300\<rparr> (200, 200)
     = Inr \<lparr>im_mode = ''L'', im_width = 200, im_height = 150\<rparr>"
  by (simp add: pil_thumbnail_def nearer_def ceil_div_def dist_nat_def Let_def)

lemma rgba_thumbnail:
  "pil_thumbnail up (pil_convert \<lparr>im_mode = ''RGBA'', im_width = 400, im_height = 300\<rparr> ''RGB'')
       (200, 200)
     = Inr \<lparr>im_mode = ''RGB'', im_width = 200, im_height = 150\<rparr>"
  by (simp add: pil_thumbnail_def pil_convert_def nearer_def ceil_div_def dist_nat_def Let_def)

text \<open>
  Claim C7, as the code has it. The claim says that every source picture whose colour
  mode is not RGB is converted to RGB. The code converts the modes \<open>RGBA\<close> and \<open>P\<close>
  only (line 321): a grey-scale picture, of mode \<open>L\<close>, is resized and saved in mode \<open>L\<close>.
\<close>

theorem gray_picture_counterexample:
  "pil_open (example_env\<lparr>pil_open := (\<lambda>c. Inr \<lparr>im_mode = ''L'', im_width = 400, im_height = 300\<rparr>)\<rparr>)
       (Raw ''PNG'')
     = Inr \<lparr>im_mode = ''L'', im_width = 400, im_height = 300\<rparr>
   \<and> ''L'' \<noteq> ''RGB''
   \<and> fst (create_thumbnail
            (example_env\<lparr>pil_open := (\<lambda>c. Inr \<lparr>im_mode = ''L'', im_width = 400, im_height = 300\<rparr>)\<rparr>)
            example_picture_store ''uploads/chat/file_000000000000.png'' ''uploads/chat''
            ''file_000000000000'' ''png'')
     = Some ''uploads/chat/thumbs/file_000000000000_thumb.png''
   \<and> fs (snd (create_thumbnail
            (example_env\<lparr>pil_open := (\<lambda>c. Inr \<lparr>im_mode = ''L'', im_width = 400, im_height = 300\<rparr>)\<rparr>)
            example_picture_store ''uploads/chat/file_000000000000.png'' ''uploads/chat''
            ''file_000000000000'' ''png''))
        ''uploads/chat/thumbs/file_000000000000_thumb.png''
     = Some (File (Encoded \<lparr>im_mode = ''L'', im_width = 200, im_height = 150\<rparr> 85 True))"
  using example_thumbnail [of "\<lparr>im_mode = ''L'', im_width = 400, im_height = 300\<rparr>"
      "\<lparr>im_mode = ''L'', im_width = 200, im_height = 150\<rparr>"]
    gray_thumbnail
  by simp

text \<open>
  Claim C7, amended. Whenever \<open>create_thumbnail\<close> produces a thumbnail, the file at the
  thumbnail path is the source picture, converted to RGB first if its mode is \<open>RGBA\<close> or
  \<open>P\<close> and left in its mode otherwise (whatever that mode is), then resized by
  \<open>thumbnail((200, 200))\<close> and encoded at quality 85 with optimization. The result fits
  the 200 x 200 box and keeps the aspect ratio: either the picture already fitted and
  keeps its size, or one side is 200 and the other is the proportional value rounded to
  a neighbouring whole pixel (at least 1).
\<close>

theorem thumbnail_policy:
  assumes "create_thumbnail e w image_path chat file_id ext = (Some t, w1)"
  shows "\<exists>fs1 img img2.
           os_makedirs (mkdir_faults e) (fs w) (os_path_join chat ''thumbs'') = Inr fs1
         \<and> image_open e fs1 image_path = Inr img
         \<and> pil_thumbnail (pil_rounds_up e)
              (if im_mode img \<in> {''RGBA'', ''P''} then pil_convert img ''RGB'' else img)
              (200, 200) = Inr img2
         \<and> t = os_path_join (os_path_join chat ''thumbs'') (file_id @ ''_thumb.'' @ ext)
         \<and> fs w1 t = Some (File (Encoded img2 85 True))
         \<and> im_mode img2 = (if im_mode img \<in> {''RGBA'', ''P''} then ''RGB'' else im_mode img)
         \<and> im_width img2 \<le> 200 \<and> im_height img2 \<le> 200
         \<and> keeps_aspect img (200, 200) img2"
proof -
  from assms obtain fs1 img img2 v where
    mk: "os_makedirs (mkdir_faults e) (fs w) (os_path_join chat ''thumbs'') = Inr fs1"
    and op: "image_open e fs1 image_path = Inr img"
    and th: "pil_thumbnail (pil_rounds_up e)
       (if im_mode img \<in> {''RGBA'', ''P''} then pil_convert img ''RGB'' else img)
       (200, 200) = Inr img2"
    and wr: "write_file (io_faults e) fs1
       (os_path_join (os_path_join chat ''thumbs'') (file_id @ ''_thumb.'' @ ext))
       (Encoded img2 85 True) = (Inr v, fs w1)"
    and t: "t = os_path_join (os_path_join chat ''thumbs'') (file_id @ ''_thumb.'' @ ext)"
    by (rule create_thumbnail_some)
  let ?img1 = "if im_mode img \<in> {''RGBA'', ''P''} then pil_convert img ''RGB'' else img"
  have stored: "fs w1 t = Some (File (Encoded img2 85 True))"
    using write_file_ok [OF wr] t by simp
  have mode: "im_mode img2 = (if im_mode img \<in> {''RGBA'', ''P''} then ''RGB'' else im_mode img)"
    using pil_thumbnail_mode [OF th] by (simp add: pil_convert_def)
  have box: "im_width img2 \<le> 200 \<and> im_height img2 \<le> 200"
    using pil_thumbnail_box(1) [OF th] by simp
  have "keeps_aspect ?img1 (200, 200) img2"
    using pil_thumbnail_box(2) [OF th] by simp
  then have asp: "keeps_aspect img (200, 200) img2"
    by (simp add: keeps_aspect_def pil_convert_def split: if_splits)
  from mk op th t stored mode box asp show ?thesis by blast
qed

text \<open>The theorem at a picture of mode \<open>RGBA\<close>, 400 by 300 pixels.\<close>

theorem thumbnail_policy_witness:
  "create_thumbnail
      (example_env\<lparr>pil_open := (\<lambda>c. Inr \<lparr>im_mode = ''RGBA'', im_width = 400, im_height = 300\<rparr>)\<rparr>)
      example_picture_store ''uploads/chat/file_000000000000.png'' ''uploads/chat''
      ''file_000000000000'' ''png''
    = (Some ''uploads/chat/thumbs/file_000000000000_thumb.png'',
       snd (create_thumbnail
         (example_env\<lparr>pil_open := (\<lambda>c. Inr \<lparr>im_mode = ''RGBA'', im_width = 400, im_height = 300\<rparr>)\<rparr>)
         example_picture_store ''uploads/chat/file_000000000000.png'' ''uploads/chat''
         ''file_000000000000'' ''png''))
   \<and> (\<exists>fs1 img img2.
         os_makedirs
            (mkdir_faults
               (example_env\<lparr>pil_open := (\<lambda>c. Inr \<lparr>im_mode = ''RGBA'', im_width = 400, im_height = 300\<rparr>)\<rparr>))
            (fs example_picture_store) (os_path_join ''uploads/chat'' ''thumbs'') = Inr fs1
       \<and> image_open
            (example_env\<lparr>pil_open := (\<lambda>c. Inr \<lparr>im_mode = ''RGBA'', im_width = 400, im_height = 300\<rparr>)\<rparr>)
            fs1 ''uploads/chat/file_000000000000.png'' = Inr img
       \<and> pil_thumbnail
            (pil_rounds_up
               (example_env\<lparr>pil_open := (\<lambda>c. Inr \<lparr>im_mode = ''RGBA'', im_width = 400, im_height = 300\<rparr>)\<rparr>))
            (if im_mode img \<in> {''RGBA'', ''P''} then pil_convert img ''RGB'' else img)
            (200, 200) = Inr img2
       \<and> ''uploads/chat/thumbs/file_000000000000_thumb.png''
           = os_path_join (os_path_join ''uploads/chat'' ''thumbs'')
               (''file_000000000000'' @ ''_thumb.'' @ ''png'')
       \<and> fs (snd (create_thumbnail
            (example_env\<lparr>pil_open := (\<lambda>c. Inr \<lparr>im_mode = ''RGBA'', im_width = 400, im_height = 300\<rparr>)\<rparr>)
            example_picture_store ''uploads/chat/file_000000000000.png'' ''uploads/chat''
            ''file_000000000000'' ''png''))
            ''uploads/chat/thumbs/file_000000000000_thumb.png''
           = Some (File (Encoded img2 85 True))
       \<and> im_mode img2 = (if im_mode img \<in> {''RGBA'', ''P''} then ''RGB'' else im_mode img)
       \<and> im_width img2 \<le> 200 \<and> im_height img2 \<le> 200
       \<and> keeps_aspect img (200, 200) img2)"
proof -
  let ?e = "example_env\<lparr>pil_open := (\<lambda>c. Inr \<lparr>im_mode = ''RGBA'', im_width = 400, im_height = 300\<rparr>)\<rparr>"
  have run: "create_thumbnail ?e example_picture_store ''uploads/chat/file_000000000000.png''
      ''uploads/chat'' ''file_000000000000'' ''png''
    = (Some ''uploads/chat/thumbs/file_000000000000_thumb.png'',
       snd (create_thumbnail ?e example_picture_store ''uploads/chat/file_000000000000.png''
         ''uploads/chat'' ''file_000000000000'' ''png''))"
    using example_thumbnail [of "\<lparr>im_mode = ''RGBA'', im_width = 400, im_height = 300\<rparr>"
        "\<lparr>im_mode = ''RGB'', im_width = 200, im_height = 150\<rparr>"] rgba_thumbnail
    by simp
  show ?thesis
    by (intro conjI) (rule run, rule thumbnail_policy [OF run])
qed

end
